theory Spec2Isabelle
  imports Main
begin

section \<open>Existential-to-generic argument specialisation\<close>

text \<open>
  A shallow embedding of \<^verbatim>\<open>lib/SILOptimizer/FunctionSignatureTransforms/ExistentialTransform.cpp\<close>.
  The transform builds IR, so the model builds IR too: every call on a builder
  (\<^verbatim>\<open>createAllocStack\<close>, \<^verbatim>\<open>createCopyAddr\<close>, \<^verbatim>\<open>emitDestroyOperation\<close>, ...) appends one
  instruction, named after the call, to the block under construction. Source locations
  and debug scopes are left out. Assertions and \<^verbatim>\<open>llvm_unreachable\<close> are results
  \<open>Inl\<close> of an error type.
\<close>

subsection \<open>Enumerations\<close>

datatype ExistentialRepresentation = NoRepresentation | Opaque | Class | Metatype | Boxed

datatype OwnershipKind = AnyOwnership | Unowned | Owned | Guaranteed | NoOwnership

datatype SILValueCategory = Object | Address

datatype OpenedExistentialAccess = Immutable | Mutable

datatype IsTake_t = IsNotTake | IsTake

datatype IsInitialization_t = IsNotInitialization | IsInitialization

datatype LoadOwnershipQualifier = Unqualified | Take | Copy | Trivial

datatype StoreOwnershipQualifier = StoreUnqualified | Init | Assign | StoreTrivial

datatype ParameterConvention =
    Indirect_In | Indirect_Inout | Indirect_InoutAliasable | Indirect_In_Guaranteed
  | Direct_Owned | Direct_Unowned | Direct_Guaranteed
  | Pack_Guaranteed | Pack_Owned | Pack_Inout

datatype SILArgumentConvention = ArgIndirect_Out | ArgParameter ParameterConvention

datatype ResultConvention =
    ResIndirect | ResOwned | ResUnowned | ResUnownedInnerPointer | ResAutoreleased | ResPack

datatype SILFunctionTypeRepresentation =
    Thick | Block | Thin | CFunctionPointer | Method | ObjCMethod | WitnessMethod | Closure

datatype SILCoroutineKind = NotCoroutine | YieldOnce | YieldOnce2 | YieldMany

datatype IsThunk_t =
    IsNotThunk | IsThunk | IsReabstractionThunk | IsSignatureOptimizedThunk | IsBackDeployedThunk

datatype Inline_t = InlineDefault | NoInline | AlwaysInline

datatype SILLinkage =
    Public | PublicNonABI | Package | PackageNonABI | Hidden | Shared | Private
  | PublicExternal | PackageExternal | HiddenExternal

datatype RequirementKind = Conformance | Superclass | SameType | Layout

datatype error =
    UnhandledExistential      \<comment> \<open>\<^verbatim>\<open>llvm_unreachable("Unhandled existential type ...")\<close>\<close>
  | ParameterIndexOutOfRange  \<comment> \<open>\<^verbatim>\<open>params[Idx]\<close> past the end of the vector\<close>
  | OpenedTypeIsExistential   \<comment> \<open>\<^verbatim>\<open>assert(!OpenedType.isAnyExistentialType())\<close>\<close>
  | NotAnExistentialType      \<comment> \<open>\<^verbatim>\<open>assert(PType.isExistentialType())\<close>\<close>
  | CleanupValueIsGuaranteed  \<comment> \<open>\<^verbatim>\<open>assert(cleanupVal->getOwnershipKind() != Guaranteed)\<close>\<close>
  | OpenedTypeNotRecorded     \<comment> \<open>\<^verbatim>\<open>assert(iter != GenericToOpenedTypeMap.end())\<close>\<close>
  | CachedTypeMismatch        \<comment> \<open>\<^verbatim>\<open>assert(CachedFn->getLoweredFunctionType() == NewFTy)\<close>\<close>
  | ArgumentIndexOutOfRange   \<comment> \<open>\<^verbatim>\<open>ThunkBody->getArgument(Idx)\<close> past the end of the arguments\<close>

subsection \<open>Types\<close>

datatype GenericTypeParamType = GenericTypeParam (getDepth: nat) (getIndex: nat)

datatype CanType =
    NominalType string
  | ExistentialType (getConstraintType: CanType)
  | GenericParamTy GenericTypeParamType
  | ArchetypeType CanType
  | ExistentialArchetypeType CanType

record SILType =
  ASTType :: CanType
  Category :: SILValueCategory

definition getObjectType :: "SILType \<Rightarrow> SILType" where
  "getObjectType T = T\<lparr>Category := Object\<rparr>"

definition getCategoryType :: "SILType \<Rightarrow> SILValueCategory \<Rightarrow> SILType" where
  "getCategoryType T c = T\<lparr>Category := c\<rparr>"

definition isObject :: "SILType \<Rightarrow> bool" where
  "isObject T = (Category T = Object)"

datatype Requirement = Requirement RequirementKind CanType CanType

record GenericSignature =
  GenericParams :: "GenericTypeParamType list"
  Requirements :: "Requirement list"

record SILParameterInfo =
  ParamType :: CanType
  ParamConvention :: ParameterConvention
  ParamOptions :: nat

record SILResultInfo =
  ResultType :: CanType
  ResultConv :: ResultConvention

record SILExtInfo =
  Representation :: SILFunctionTypeRepresentation
  OtherExtBits :: nat

definition withRepresentation :: "SILExtInfo \<Rightarrow> SILFunctionTypeRepresentation \<Rightarrow> SILExtInfo" where
  "withRepresentation E r = E\<lparr>Representation := r\<rparr>"

record SILFunctionType =
  InvocationGenericSignature :: GenericSignature
  ExtInfo :: SILExtInfo
  CoroutineKind :: SILCoroutineKind
  CalleeConvention :: ParameterConvention
  Parameters :: "SILParameterInfo list"
  Yields :: "SILParameterInfo list"
  Results :: "SILResultInfo list"
  ErrorResult :: "SILResultInfo option"

definition hasErrorResult :: "SILFunctionType \<Rightarrow> bool" where
  "hasErrorResult FTy = (ErrorResult FTy \<noteq> None)"

type_synonym SubstitutionMap = "(GenericTypeParamType \<times> CanType) list"

subsection \<open>Values, instructions, blocks, functions\<close>

type_synonym ValueDecl = string

text \<open>
  A block argument. \<open>ParentBlock\<close> and \<open>ArgIndex\<close> are the block (by creation order in
  its function) and the position in the block's argument list; together they stand for
  the identity of the C++ object.
\<close>

record SILArgument =
  ParentBlock :: nat
  ArgIndex :: nat
  ArgType :: SILType
  ArgDecl :: "ValueDecl option"
  ArgOwnershipKind :: OwnershipKind
  ArgFlags :: nat

datatype Conformances = collectExistentialConformances CanType CanType

text \<open>
  A value is the instruction (or argument) that defines it, with its operands. An
  \<^verbatim>\<open>alloc_stack\<close> has no operand, so it carries the index of the argument for which it is
  created; this stands for the identity of the instruction (at most one
  \<^verbatim>\<open>alloc_stack\<close> is created per argument and per function).
\<close>

datatype SILValue =
    ArgumentValue SILArgument
  | AllocStackInst nat SILType
  | InitExistentialAddrInst SILValue CanType SILType Conformances
  | LoadValueOperation SILValue LoadOwnershipQualifier
  | CopyValueOperation SILValue
  | InitExistentialRefInst SILType CanType SILValue Conformances
  | OpenExistentialAddrInst SILValue SILType OpenedExistentialAccess
  | OpenExistentialRefInst SILValue SILType
  | FunctionRefInst string
  | ApplyInst SILValue SubstitutionMap "SILValue list"
  | OtherValue nat OwnershipKind

datatype SILInstruction =
    ValueInst SILValue
  | CopyAddrInst SILValue SILValue IsTake_t IsInitialization_t
  | StoreValueOperation SILValue SILValue StoreOwnershipQualifier
  | DestroyOperation SILValue
  | DeallocStackInst SILValue
  | OtherInst nat

datatype TermInst =
    ReturnInst SILValue
  | ThrowInst SILValue
  | UnreachableInst
  | TryApplyInst SILValue SubstitutionMap "SILValue list" nat nat
  | OtherTerm nat

record SILBasicBlock =
  Arguments :: "SILArgument list"
  Instructions :: "SILInstruction list"
  Terminator :: TermInst

record SILFunction =
  Name :: string
  Linkage :: SILLinkage
  LoweredFunctionType :: SILFunctionType
  isBare :: bool
  isTransparent :: bool
  SerializedKind :: nat
  isDynamic :: bool
  isDistributed :: bool
  isRuntimeAccessible :: bool
  EntryCount :: nat
  isThunk :: IsThunk_t
  ClassSubclassScope :: nat
  InlineStrategy :: Inline_t
  EffectsKind :: nat
  SemanticsAttrs :: "string list"
  hasOwnership :: bool
  Blocks :: "SILBasicBlock list"

subsection \<open>Descriptors\<close>

record ArgumentDescriptor =
  Arg :: SILArgument
  Index :: nat
  Decl :: "ValueDecl option"

record ExistentialTransformArgumentDescriptor =
  AccessType :: OpenedExistentialAccess
  isConsumed :: bool

text \<open>
  \<^verbatim>\<open>ExistentialArgDescriptor\<close> is a \<^verbatim>\<open>SmallDenseMap<int, ...>\<close> that the transform both looks up
  and iterates. It is an association list in the order the map's iterator visits the
  entries; the container does not promise any particular order. Keys are argument
  positions, so they are \<open>nat\<close>.
\<close>

type_synonym ExistentialArgDescriptorMap = "(nat \<times> ExistentialTransformArgumentDescriptor) list"

text \<open>
  \<^verbatim>\<open>ExistentialArgDescriptor[Idx]\<close>: \<^verbatim>\<open>operator[]\<close> yields a value-initialised entry for a key
  that is absent.
\<close>

definition lookupOrDefault ::
  "ExistentialArgDescriptorMap \<Rightarrow> nat \<Rightarrow> ExistentialTransformArgumentDescriptor" where
  "lookupOrDefault E i =
     (case map_of E i of Some d \<Rightarrow> d
      | None \<Rightarrow> \<lparr>AccessType = Immutable, isConsumed = False\<rparr>)"

subsection \<open>External collaborators\<close>

text \<open>
  Functions of the compiler that the transform calls and whose code is elsewhere: the
  type system, type lowering, the mangler, the generic cloner, the search for the
  exiting blocks. They are the fields of one record, passed to every operation.
\<close>

record Host =
  mangle :: "string \<Rightarrow> nat list \<Rightarrow> string"
  isExistentialType :: "CanType \<Rightarrow> bool"
  isAnyExistentialType :: "CanType \<Rightarrow> bool"
  getPreferredExistentialRepresentation :: "SILType \<Rightarrow> ExistentialRepresentation"
  getArgumentType :: "SILFunctionType \<Rightarrow> SILParameterInfo \<Rightarrow> CanType"
  mapTypeIntoContext :: "SILFunction \<Rightarrow> CanType \<Rightarrow> CanType"
  getLoweredType :: "SILFunction \<Rightarrow> CanType \<Rightarrow> SILType"
  getArgumentConvention :: "SILArgument \<Rightarrow> SILArgumentConvention"
  ValueOwnershipKind :: "SILFunction \<Rightarrow> SILType \<Rightarrow> SILArgumentConvention \<Rightarrow> OwnershipKind"
  defaultArgumentOwnership :: "SILFunction \<Rightarrow> nat \<Rightarrow> SILType \<Rightarrow> OwnershipKind"
  getReducedType :: "GenericSignature \<Rightarrow> GenericTypeParamType \<Rightarrow> CanType"
  buildGenericSignature ::
    "GenericSignature \<Rightarrow> GenericTypeParamType list \<Rightarrow> Requirement list \<Rightarrow> GenericSignature"
  cloneFunctionBody ::
    "SILFunction \<Rightarrow> SILArgument list \<Rightarrow> SILInstruction list \<Rightarrow> SILValue list \<Rightarrow> SILBasicBlock list"
  isFunctionExiting :: "TermInst \<Rightarrow> bool"
  getSpecializedLinkage :: "SILFunction \<Rightarrow> SILLinkage \<Rightarrow> SILLinkage"
  isNoReturnFunction :: "SILFunction \<Rightarrow> bool"
  substForwarding :: "SILFunction \<Rightarrow> GenericTypeParamType \<Rightarrow> CanType"
  substGenericArgs :: "SILFunctionType \<Rightarrow> SubstitutionMap \<Rightarrow> SILFunctionType"
  getSILResultType :: "SILFunctionType \<Rightarrow> SILType"
  getSILType :: "SILFunctionType \<Rightarrow> SILResultInfo \<Rightarrow> SILType"

subsection \<open>The cloner: entry block of the generic function\<close>

record ClonerState =
  AllocStackInsts :: "SILValue list"
  CleanupValues :: "SILValue list"
  entryArgs :: "SILValue list"
  ClonedEntryBBArgs :: "SILArgument list"
  ClonedEntryBBInsts :: "SILInstruction list"

definition initialClonerState :: ClonerState where
  "initialClonerState =
     \<lparr>AllocStackInsts = [], CleanupValues = [], entryArgs = [],
      ClonedEntryBBArgs = [], ClonedEntryBBInsts = []\<rparr>"

text \<open>One iteration of the loop over \<^verbatim>\<open>ArgumentDescList\<close> in \<^verbatim>\<open>cloneArguments\<close>.\<close>

definition cloneArgument ::
  "Host \<Rightarrow> SILFunction \<Rightarrow> (nat \<rightharpoonup> GenericTypeParamType) \<Rightarrow> ExistentialArgDescriptorMap
     \<Rightarrow> ArgumentDescriptor \<Rightarrow> ClonerState \<Rightarrow> error + ClonerState" where
  "cloneArgument H NewF ArgToGenericTypeMap ExistentialArgDescriptor ArgDesc st =
    (let NewFTy = LoweredFunctionType NewF;
         params = Parameters NewFTy
     in case ArgToGenericTypeMap (Index ArgDesc) of
       None \<Rightarrow>
         if Index ArgDesc < length params then
           let Ty = getArgumentType H NewFTy (params ! Index ArgDesc);
               LoweredTy = getLoweredType H NewF (mapTypeIntoContext H NewF Ty);
               MappedTy = getCategoryType LoweredTy (Category (ArgType (Arg ArgDesc)));
               NewArg = \<lparr>ParentBlock = 0, ArgIndex = length (ClonedEntryBBArgs st),
                         ArgType = MappedTy, ArgDecl = Decl ArgDesc,
                         ArgOwnershipKind =
                           defaultArgumentOwnership H NewF (length (ClonedEntryBBArgs st)) MappedTy,
                         ArgFlags = ArgFlags (Arg ArgDesc)\<rparr>
           in Inr (st\<lparr>ClonedEntryBBArgs := ClonedEntryBBArgs st @ [NewArg],
                      entryArgs := entryArgs st @ [ArgumentValue NewArg]\<rparr>)
         else Inl ParameterIndexOutOfRange
     | Some GenericParam \<Rightarrow>
         let GenericSILType =
               getCategoryType
                 (getLoweredType H NewF (mapTypeIntoContext H NewF (GenericParamTy GenericParam)))
                 (Category (ArgType (Arg ArgDesc)));
             NewArg = \<lparr>ParentBlock = 0, ArgIndex = length (ClonedEntryBBArgs st),
                       ArgType = GenericSILType, ArgDecl = Decl ArgDesc,
                       ArgOwnershipKind =
                         ValueOwnershipKind H NewF GenericSILType
                           (getArgumentConvention H (Arg ArgDesc)),
                       ArgFlags = ArgFlags (Arg ArgDesc)\<rparr>;
             ExistentialTy = getObjectType (ArgType (Arg ArgDesc));
             OpenedType = ASTType (ArgType NewArg)
         in if isAnyExistentialType H OpenedType then Inl OpenedTypeIsExistential
            else
              let Conformances = collectExistentialConformances OpenedType (ASTType ExistentialTy);
                  ExistentialRepr = getPreferredExistentialRepresentation H (ArgType (Arg ArgDesc));
                  EAD = lookupOrDefault ExistentialArgDescriptor (Index ArgDesc);
                  origConsumed = isConsumed EAD
              in (case ExistentialRepr of
                Opaque \<Rightarrow>
                  let ASI = AllocStackInst (Index ArgDesc) (ArgType (Arg ArgDesc));
                      EAI = InitExistentialAddrInst ASI (ASTType (ArgType NewArg))
                              (ArgType NewArg) Conformances
                  in Inr (st\<lparr>
                       AllocStackInsts := AllocStackInsts st @ [ASI],
                       CleanupValues :=
                         (if \<not> origConsumed then CleanupValues st @ [ASI] else CleanupValues st),
                       entryArgs := entryArgs st @ [ASI],
                       ClonedEntryBBArgs := ClonedEntryBBArgs st @ [NewArg],
                       ClonedEntryBBInsts := ClonedEntryBBInsts st @
                         [ValueInst ASI, ValueInst EAI,
                          CopyAddrInst (ArgumentValue NewArg) EAI
                            (if origConsumed then IsTake else IsNotTake) IsInitialization]\<rparr>)
              | Class \<Rightarrow>
                  let loaded = LoadValueOperation (ArgumentValue NewArg)
                                 (if hasOwnership NewF \<and> \<not> origConsumed then Copy else Take);
                      needsLoad = \<not> isObject (ArgType NewArg);
                      isUnowned = (hasOwnership NewF \<and> ArgOwnershipKind NewArg = Unowned);
                      copied = CopyValueOperation (ArgumentValue NewArg);
                      NewArgValue =
                        (if isUnowned then copied
                         else if needsLoad then loaded else ArgumentValue NewArg);
                      InitRef = InitExistentialRefInst ExistentialTy (ASTType (ArgType NewArg))
                                  NewArgValue Conformances;
                      alloc = AllocStackInst (Index ArgDesc) ExistentialTy
                  in Inr (st\<lparr>
                       AllocStackInsts :=
                         (if needsLoad then AllocStackInsts st @ [alloc] else AllocStackInsts st),
                       CleanupValues :=
                         (if isUnowned then CleanupValues st @ [InitRef] else CleanupValues st),
                       entryArgs := entryArgs st @ [if needsLoad then alloc else InitRef],
                       ClonedEntryBBArgs := ClonedEntryBBArgs st @ [NewArg],
                       ClonedEntryBBInsts := ClonedEntryBBInsts st @
                         (if needsLoad then [ValueInst loaded] else []) @
                         (if isUnowned then [ValueInst copied] else []) @
                         [ValueInst InitRef] @
                         (if needsLoad
                          then [ValueInst alloc, StoreValueOperation InitRef alloc Init]
                          else [])\<rparr>)
              | _ \<Rightarrow> Inl UnhandledExistential))"

fun cloneArgumentsLoop ::
  "Host \<Rightarrow> SILFunction \<Rightarrow> (nat \<rightharpoonup> GenericTypeParamType) \<Rightarrow> ExistentialArgDescriptorMap
     \<Rightarrow> ArgumentDescriptor list \<Rightarrow> ClonerState \<Rightarrow> error + ClonerState" where
  "cloneArgumentsLoop H NewF A2G E [] st = Inr st"
| "cloneArgumentsLoop H NewF A2G E (ArgDesc # rest) st =
     (case cloneArgument H NewF A2G E ArgDesc st of
        Inl e \<Rightarrow> Inl e
      | Inr st' \<Rightarrow> cloneArgumentsLoop H NewF A2G E rest st')"

definition cloneArguments ::
  "Host \<Rightarrow> SILFunction \<Rightarrow> (nat \<rightharpoonup> GenericTypeParamType) \<Rightarrow> ExistentialArgDescriptorMap
     \<Rightarrow> ArgumentDescriptor list \<Rightarrow> error + ClonerState" where
  "cloneArguments H NewF A2G E ArgumentDescList =
     cloneArgumentsLoop H NewF A2G E ArgumentDescList initialClonerState"

subsection \<open>The cloner: body and exits\<close>

text \<open>
  Modelled from the spec: the ownership kind of a value (\<^verbatim>\<open>getOwnershipKind\<close> is defined
  outside this file). The spec calls the copy of an unowned argument "an owning copy"
  and a loaded reference a move or a copy; boxing into and opening an existential
  reference hand on the ownership of their operand; an address, and a function
  reference, carry no ownership; an argument and a value of the cloned body have the
  kind they were created with. The result of a call is owned, as the thunk declares the
  result argument of its normal block.
\<close>

fun getOwnershipKind :: "SILValue \<Rightarrow> OwnershipKind" where
  "getOwnershipKind (ArgumentValue a) = ArgOwnershipKind a"
| "getOwnershipKind (AllocStackInst i T) = NoOwnership"
| "getOwnershipKind (InitExistentialAddrInst v T S c) = NoOwnership"
| "getOwnershipKind (LoadValueOperation v q) = Owned"
| "getOwnershipKind (CopyValueOperation v) = Owned"
| "getOwnershipKind (InitExistentialRefInst T C v c) = getOwnershipKind v"
| "getOwnershipKind (OpenExistentialAddrInst v T a) = NoOwnership"
| "getOwnershipKind (OpenExistentialRefInst v T) = getOwnershipKind v"
| "getOwnershipKind (FunctionRefInst n) = NoOwnership"
| "getOwnershipKind (ApplyInst f m as) = Owned"
| "getOwnershipKind (OtherValue n k) = k"

text \<open>The loop over \<^verbatim>\<open>CleanupValues\<close>: assert, then emit the destroy.\<close>

fun destroyCleanupValues :: "SILValue list \<Rightarrow> error + SILInstruction list" where
  "destroyCleanupValues [] = Inr []"
| "destroyCleanupValues (cleanupVal # rest) =
     (if getOwnershipKind cleanupVal = Guaranteed then Inl CleanupValueIsGuaranteed
      else case destroyCleanupValues rest of
             Inl e \<Rightarrow> Inl e
           | Inr ds \<Rightarrow> Inr (DestroyOperation cleanupVal # ds))"

text \<open>
  The loop over the exiting blocks; the builder inserts before the terminator. Which
  terminators make a block an exit is decided by \<^verbatim>\<open>findExitingBlocks\<close>, outside this
  file: the host's \<open>isFunctionExiting\<close>.
\<close>

fun cleanupExitingBlocks ::
  "Host \<Rightarrow> ClonerState \<Rightarrow> SILBasicBlock list \<Rightarrow> error + SILBasicBlock list" where
  "cleanupExitingBlocks H st [] = Inr []"
| "cleanupExitingBlocks H st (BB # rest) =
     (if isFunctionExiting H (Terminator BB) then
        case destroyCleanupValues (CleanupValues st) of
          Inl e \<Rightarrow> Inl e
        | Inr ds \<Rightarrow>
            (case cleanupExitingBlocks H st rest of
               Inl e \<Rightarrow> Inl e
             | Inr rest' \<Rightarrow>
                 Inr (BB\<lparr>Instructions := Instructions BB @ ds
                            @ map DeallocStackInst (rev (AllocStackInsts st))\<rparr> # rest'))
      else case cleanupExitingBlocks H st rest of
             Inl e \<Rightarrow> Inl e
           | Inr rest' \<Rightarrow> Inr (BB # rest'))"

definition cloneAndPopulateFunction ::
  "Host \<Rightarrow> SILFunction \<Rightarrow> SILFunction \<Rightarrow> (nat \<rightharpoonup> GenericTypeParamType)
     \<Rightarrow> ExistentialArgDescriptorMap \<Rightarrow> ArgumentDescriptor list \<Rightarrow> error + SILFunction" where
  "cloneAndPopulateFunction H OrigF NewF A2G E ArgumentDescList =
     (case cloneArguments H NewF A2G E ArgumentDescList of
        Inl e \<Rightarrow> Inl e
      | Inr st \<Rightarrow>
          (case cleanupExitingBlocks H st
                  (cloneFunctionBody H OrigF (ClonedEntryBBArgs st) (ClonedEntryBBInsts st)
                     (entryArgs st)) of
             Inl e \<Rightarrow> Inl e
           | Inr bs \<Rightarrow> Inr (NewF\<lparr>Blocks := bs\<rparr>)))"

subsection \<open>Name and type of the generic function\<close>

text \<open>
  \<^verbatim>\<open>createExistentialSpecializedFunctionName\<close>: the mangler is told every key of
  \<^verbatim>\<open>ExistentialArgDescriptor\<close>, in iteration order, and then asked for the name. The mangler
  belongs to the function being transformed, which it knows by name.
\<close>

definition createExistentialSpecializedFunctionName ::
  "Host \<Rightarrow> SILFunction \<Rightarrow> ExistentialArgDescriptorMap \<Rightarrow> string" where
  "createExistentialSpecializedFunctionName H F E = mangle H (Name F) (map fst E)"

text \<open>
  Modelled from the spec: \<^verbatim>\<open>getNextDepth\<close> (defined outside this file) is the first depth
  strictly greater than the deepest generic parameter of the signature, 0 for a
  signature without parameters.
\<close>

definition getNextDepth :: "GenericSignature \<Rightarrow> nat" where
  "getNextDepth sig =
     (if GenericParams sig = [] then 0
      else Suc (Max (set (map getDepth (GenericParams sig)))))"

record ConvertState =
  genericParams :: "GenericTypeParamType list"
  requirements :: "Requirement list"
  ArgToGenericTypeMap :: "nat \<rightharpoonup> GenericTypeParamType"
  GPIdx :: nat

text \<open>\<^verbatim>\<open>DenseMap::insert\<close> keeps the entry of a key that is already present.\<close>

definition insertIfAbsent :: "('k \<rightharpoonup> 'v) \<Rightarrow> 'k \<Rightarrow> 'v \<Rightarrow> ('k \<rightharpoonup> 'v)" where
  "insertIfAbsent m k v = (case m k of None \<Rightarrow> m(k \<mapsto> v) | Some old \<Rightarrow> m)"

text \<open>
  The constraint of a parameter type: the type itself, or the constraint type when it is
  an \<^verbatim>\<open>ExistentialType\<close>.
\<close>

definition constraintOf :: "CanType \<Rightarrow> CanType" where
  "constraintOf PType = (case PType of ExistentialType c \<Rightarrow> c | _ \<Rightarrow> PType)"

text \<open>The loop of \<^verbatim>\<open>convertExistentialArgTypesToGenericArgTypes\<close>.\<close>

fun convertLoop ::
  "Host \<Rightarrow> SILFunctionType \<Rightarrow> nat \<Rightarrow> ExistentialArgDescriptorMap \<Rightarrow> ConvertState
     \<Rightarrow> error + ConvertState" where
  "convertLoop H FTy Depth [] st = Inr st"
| "convertLoop H FTy Depth (IdxIt # rest) st =
     (let Idx = fst IdxIt; params = Parameters FTy
      in if \<not> Idx < length params then Inl ParameterIndexOutOfRange
         else
           let PType = getArgumentType H FTy (params ! Idx)
           in if \<not> isExistentialType H PType then Inl NotAnExistentialType
              else
                let constraint = constraintOf PType;
                    NewGenericParam = GenericTypeParam Depth (GPIdx st);
                    NewRequirement =
                      Requirement Conformance (GenericParamTy NewGenericParam) constraint
                in convertLoop H FTy Depth rest
                     (st\<lparr>genericParams := genericParams st @ [NewGenericParam],
                         requirements := requirements st @ [NewRequirement],
                         ArgToGenericTypeMap :=
                           insertIfAbsent (ArgToGenericTypeMap st) Idx NewGenericParam,
                         GPIdx := Suc (GPIdx st)\<rparr>))"

definition convertExistentialArgTypesToGenericArgTypes ::
  "Host \<Rightarrow> SILFunction \<Rightarrow> ExistentialArgDescriptorMap \<Rightarrow> (nat \<rightharpoonup> GenericTypeParamType)
     \<Rightarrow> error + ConvertState" where
  "convertExistentialArgTypesToGenericArgTypes H F E A2G =
     (let FTy = LoweredFunctionType F;
          OrigGenericSig = InvocationGenericSignature FTy;
          Depth = getNextDepth OrigGenericSig
      in convertLoop H FTy Depth E
           \<lparr>genericParams = [], requirements = [], ArgToGenericTypeMap = A2G, GPIdx = 0\<rparr>)"

definition createExistentialSpecializedFunctionType ::
  "Host \<Rightarrow> SILFunction \<Rightarrow> ExistentialArgDescriptorMap \<Rightarrow> (nat \<rightharpoonup> GenericTypeParamType)
     \<Rightarrow> error + (SILFunctionType \<times> (nat \<rightharpoonup> GenericTypeParamType))" where
  "createExistentialSpecializedFunctionType H F E A2G =
     (let FTy = LoweredFunctionType F;
          OrigGenericSig = InvocationGenericSignature FTy
      in case convertExistentialArgTypesToGenericArgTypes H F E A2G of
           Inl e \<Rightarrow> Inl e
         | Inr cs \<Rightarrow>
             let NewGenericSig =
                   buildGenericSignature H OrigGenericSig (genericParams cs) (requirements cs);
                 InterfaceParams =
                   map (\<lambda>(Idx, param).
                          case ArgToGenericTypeMap cs Idx of
                            Some GenericParam \<Rightarrow>
                              \<lparr>ParamType = getReducedType H NewGenericSig GenericParam,
                               ParamConvention = ParamConvention param,
                               ParamOptions = 0\<rparr>
                          | None \<Rightarrow> param)
                       (enumerate 0 (Parameters FTy));
                 InterfaceErrorResult =
                   (if hasErrorResult FTy then ErrorResult FTy else None)
             in Inr (\<lparr>InvocationGenericSignature = NewGenericSig,
                      ExtInfo = withRepresentation (ExtInfo FTy) Thin,
                      CoroutineKind = CoroutineKind FTy,
                      CalleeConvention = CalleeConvention FTy,
                      Parameters = InterfaceParams,
                      Yields = Yields FTy,
                      Results = Results FTy,
                      ErrorResult = InterfaceErrorResult\<rparr>,
                     ArgToGenericTypeMap cs))"

subsection \<open>The thunk\<close>

record Temp =
  DeallocStackEntry :: "SILValue option"
  DestroyValue :: "SILValue option"

record ThunkState =
  ApplyArgs :: "SILValue list"
  Temps :: "Temp list"
  GenericToOpenedTypeMap :: "GenericTypeParamType \<rightharpoonup> CanType"
  ThunkInsts :: "SILInstruction list"

text \<open>The arguments of the thunk's entry block, one per element of \<^verbatim>\<open>ArgumentDescList\<close>.\<close>

definition createThunkArguments ::
  "Host \<Rightarrow> SILFunction \<Rightarrow> ArgumentDescriptor list \<Rightarrow> SILArgument list" where
  "createThunkArguments H F ArgumentDescList =
     map (\<lambda>(n, ArgDesc).
            \<lparr>ParentBlock = 0, ArgIndex = n, ArgType = ArgType (Arg ArgDesc),
             ArgDecl = Decl ArgDesc,
             ArgOwnershipKind = defaultArgumentOwnership H F n (ArgType (Arg ArgDesc)),
             ArgFlags = ArgFlags (Arg ArgDesc)\<rparr>)
         (enumerate 0 ArgumentDescList)"

text \<open>One iteration of the loop that determines the arguments of the call.\<close>

definition thunkArgument ::
  "Host \<Rightarrow> SILFunction \<Rightarrow> SILFunction \<Rightarrow> SILArgument list
     \<Rightarrow> (nat \<rightharpoonup> GenericTypeParamType) \<Rightarrow> ExistentialArgDescriptorMap
     \<Rightarrow> ArgumentDescriptor \<Rightarrow> ThunkState \<Rightarrow> error + ThunkState" where
  "thunkArgument H F NewF ThunkArgs A2G E ArgDesc st =
    (if \<not> Index ArgDesc < length ThunkArgs then Inl ArgumentIndexOutOfRange
     else
       let OrigOperand = ArgumentValue (ThunkArgs ! Index ArgDesc)
       in case (A2G (Index ArgDesc), map_of E (Index ArgDesc)) of
         (Some GenericParam, Some ETAD) \<Rightarrow>
           let SwiftType = ASTType (ArgType (Arg ArgDesc));
               OpenedType = ExistentialArchetypeType SwiftType;
               OpenedSILType = getLoweredType H NewF OpenedType;
               ExistentialRepr = getPreferredExistentialRepresentation H (ArgType (Arg ArgDesc));
               OriginallyConsumed = isConsumed ETAD;
               G2O = insertIfAbsent (GenericToOpenedTypeMap st) GenericParam OpenedType
           in (case ExistentialRepr of
                Opaque \<Rightarrow>
                  let archetypeValue =
                        OpenExistentialAddrInst OrigOperand OpenedSILType (AccessType ETAD);
                      ASI = AllocStackInst (Index ArgDesc) OpenedSILType
                  in if OriginallyConsumed then
                       Inr (st\<lparr>ApplyArgs := ApplyArgs st @ [ASI],
                                Temps := Temps st @
                                  [\<lparr>DeallocStackEntry = Some ASI, DestroyValue = Some OrigOperand\<rparr>],
                                GenericToOpenedTypeMap := G2O,
                                ThunkInsts := ThunkInsts st @
                                  [ValueInst archetypeValue, ValueInst ASI,
                                   CopyAddrInst archetypeValue ASI IsNotTake IsInitialization]\<rparr>)
                     else
                       Inr (st\<lparr>ApplyArgs := ApplyArgs st @ [archetypeValue],
                                GenericToOpenedTypeMap := G2O,
                                ThunkInsts := ThunkInsts st @ [ValueInst archetypeValue]\<rparr>)
              | Class \<Rightarrow>
                  let operandIsObject = isObject (ArgType (ThunkArgs ! Index ArgDesc));
                      copies = (hasOwnership F \<and> \<not> OriginallyConsumed);
                      OrigValue =
                        (if \<not> operandIsObject
                         then LoadValueOperation OrigOperand (if copies then Copy else Take)
                         else if copies then CopyValueOperation OrigOperand
                         else OrigOperand);
                      archetypeValue = OpenExistentialRefInst OrigValue OpenedSILType;
                      ASI = AllocStackInst (Index ArgDesc) OpenedSILType
                  in Inr (st\<lparr>
                       ApplyArgs := ApplyArgs st @ [if \<not> operandIsObject then ASI else archetypeValue],
                       Temps := Temps st @
                         (if \<not> operandIsObject
                          then [\<lparr>DeallocStackEntry = Some ASI, DestroyValue = None\<rparr>]
                          else if copies
                          then [\<lparr>DeallocStackEntry = None, DestroyValue = Some archetypeValue\<rparr>]
                          else []),
                       GenericToOpenedTypeMap := G2O,
                       ThunkInsts := ThunkInsts st @
                         (if \<not> operandIsObject \<or> copies then [ValueInst OrigValue] else []) @
                         [ValueInst archetypeValue] @
                         (if \<not> operandIsObject
                          then [ValueInst ASI, StoreValueOperation archetypeValue ASI Init]
                          else [])\<rparr>)
              | _ \<Rightarrow> Inl UnhandledExistential)
       | _ \<Rightarrow> Inr (st\<lparr>ApplyArgs := ApplyArgs st @ [OrigOperand]\<rparr>))"

fun thunkArgumentsLoop ::
  "Host \<Rightarrow> SILFunction \<Rightarrow> SILFunction \<Rightarrow> SILArgument list
     \<Rightarrow> (nat \<rightharpoonup> GenericTypeParamType) \<Rightarrow> ExistentialArgDescriptorMap
     \<Rightarrow> ArgumentDescriptor list \<Rightarrow> ThunkState \<Rightarrow> error + ThunkState" where
  "thunkArgumentsLoop H F NewF ThunkArgs A2G E [] st = Inr st"
| "thunkArgumentsLoop H F NewF ThunkArgs A2G E (ArgDesc # rest) st =
     (case thunkArgument H F NewF ThunkArgs A2G E ArgDesc st of
        Inl e \<Rightarrow> Inl e
      | Inr st' \<Rightarrow> thunkArgumentsLoop H F NewF ThunkArgs A2G E rest st')"

text \<open>
  \<^verbatim>\<open>SubstitutionMap::get\<close> asks the callback for the replacement of every generic parameter
  of the callee's signature.
\<close>

fun createSubstitutions ::
  "Host \<Rightarrow> SILFunction \<Rightarrow> nat \<Rightarrow> (GenericTypeParamType \<rightharpoonup> CanType)
     \<Rightarrow> GenericTypeParamType list \<Rightarrow> error + SubstitutionMap" where
  "createSubstitutions H F OrigDepth G2O [] = Inr []"
| "createSubstitutions H F OrigDepth G2O (GP # rest) =
     (if getDepth GP < OrigDepth then
        (case createSubstitutions H F OrigDepth G2O rest of
           Inl e \<Rightarrow> Inl e
         | Inr m \<Rightarrow> Inr ((GP, substForwarding H F GP) # m))
      else
        (case G2O GP of
           None \<Rightarrow> Inl OpenedTypeNotRecorded
         | Some T \<Rightarrow>
             (case createSubstitutions H F OrigDepth G2O rest of
                Inl e \<Rightarrow> Inl e
              | Inr m \<Rightarrow> Inr ((GP, T) # m))))"

text \<open>The cleanup after the call: the temporaries in reverse, destroy before dealloc.\<close>

definition emitTempCleanup :: "Temp \<Rightarrow> SILInstruction list" where
  "emitTempCleanup T =
     (case DestroyValue T of Some v \<Rightarrow> [DestroyOperation v] | None \<Rightarrow> []) @
     (case DeallocStackEntry T of Some a \<Rightarrow> [DeallocStackInst a] | None \<Rightarrow> [])"

definition emitTempsCleanup :: "Temp list \<Rightarrow> SILInstruction list" where
  "emitTempsCleanup Ts = concat (map emitTempCleanup (rev Ts))"

text \<open>
  The end of \<^verbatim>\<open>populateThunkBody\<close>, from the substituted callee type on: the call, the
  cleanup of the temporaries and the terminator. A callee with an error result gets the
  blocks \<^verbatim>\<open>ThunkBody\<close>, \<^verbatim>\<open>NormalBlock\<close>, \<^verbatim>\<open>ErrorBlock\<close> (numbers 0, 1, 2), in the order of
  creation; the cleanup and the terminator then go to \<^verbatim>\<open>NormalBlock\<close>.
\<close>

definition emitCall ::
  "Host \<Rightarrow> SILFunction \<Rightarrow> SILArgument list \<Rightarrow> ThunkState \<Rightarrow> SubstitutionMap
     \<Rightarrow> SILBasicBlock list" where
  "emitCall H NewF ThunkArgs st SubMap =
    (let FRI = FunctionRefInst (Name NewF);
         GenCalleeType = LoweredFunctionType NewF;
         SubstCalleeType = substGenericArgs H GenCalleeType SubMap;
         FunctionTy = LoweredFunctionType NewF;
         ResultTy = getSILResultType H SubstCalleeType;
         cleanup = emitTempsCleanup (Temps st)
     in case ErrorResult FunctionTy of
          Some errorResult \<Rightarrow>
            let NormalArg = \<lparr>ParentBlock = 1, ArgIndex = 0, ArgType = ResultTy,
                              ArgDecl = None, ArgOwnershipKind = Owned, ArgFlags = 0\<rparr>;
                ErrorArg = \<lparr>ParentBlock = 2, ArgIndex = 0,
                             ArgType = getSILType H SubstCalleeType errorResult,
                             ArgDecl = None, ArgOwnershipKind = Owned, ArgFlags = 0\<rparr>;
                ThunkBody = \<lparr>Arguments = ThunkArgs, Instructions = ThunkInsts st,
                              Terminator = TryApplyInst FRI SubMap (ApplyArgs st) 1 2\<rparr>;
                NormalBlock = \<lparr>Arguments = [NormalArg], Instructions = cleanup,
                                Terminator =
                                  (if isNoReturnFunction H NewF then UnreachableInst
                                   else ReturnInst (ArgumentValue NormalArg))\<rparr>;
                ErrorBlock = \<lparr>Arguments = [ErrorArg], Instructions = [],
                               Terminator = ThrowInst (ArgumentValue ErrorArg)\<rparr>
            in [ThunkBody, NormalBlock, ErrorBlock]
        | None \<Rightarrow>
            let ReturnValue = ApplyInst FRI SubMap (ApplyArgs st);
                ThunkBody = \<lparr>Arguments = ThunkArgs,
                              Instructions = ThunkInsts st @ [ValueInst ReturnValue] @ cleanup,
                              Terminator =
                                (if isNoReturnFunction H NewF then UnreachableInst
                                 else ReturnInst ReturnValue)\<rparr>
            in [ThunkBody])"

text \<open>
  \<^verbatim>\<open>populateThunkBody\<close>. The function is marked as a thunk and its body removed before
  the new entry block is made.
\<close>

definition populateThunkBody ::
  "Host \<Rightarrow> SILFunction \<Rightarrow> SILFunction \<Rightarrow> ArgumentDescriptor list
     \<Rightarrow> (nat \<rightharpoonup> GenericTypeParamType) \<Rightarrow> ExistentialArgDescriptorMap
     \<Rightarrow> error + SILFunction" where
  "populateThunkBody H F NewF ArgumentDescList A2G E =
    (let F1 = F\<lparr>isThunk := IsSignatureOptimizedThunk, InlineStrategy := AlwaysInline,
                 Blocks := []\<rparr>;
         ThunkArgs = createThunkArguments H F1 ArgumentDescList;
         FRI = FunctionRefInst (Name NewF);
         CalleeGenericSig = InvocationGenericSignature (LoweredFunctionType NewF);
         OrigCalleeGenericSig = InvocationGenericSignature (LoweredFunctionType F1)
     in case thunkArgumentsLoop H F1 NewF ThunkArgs A2G E ArgumentDescList
               \<lparr>ApplyArgs = [], Temps = [], GenericToOpenedTypeMap = Map.empty,
                ThunkInsts = [ValueInst FRI]\<rparr> of
          Inl e \<Rightarrow> Inl e
        | Inr st \<Rightarrow>
           (case createSubstitutions H F1 (getNextDepth OrigCalleeGenericSig)
                   (GenericToOpenedTypeMap st) (GenericParams CalleeGenericSig) of
              Inl e \<Rightarrow> Inl e
            | Inr SubMap \<Rightarrow> Inr (F1\<lparr>Blocks := emitCall H NewF ThunkArgs st SubMap\<rparr>)))"

subsection \<open>The driver\<close>

text \<open>
  The module's function table, as far as the transform uses it: \<^verbatim>\<open>lookUpFunction\<close> reads
  it and \<^verbatim>\<open>createFunction\<close> adds the new function under its name. The function being
  transformed is passed in and its rewritten form is returned, next to the generic
  function. The generic environment is determined by the generic signature and has no
  field of its own.
\<close>

type_synonym SILModule = "string \<rightharpoonup> SILFunction"

text \<open>
  The call of \<^verbatim>\<open>FunctionBuilder.createFunction\<close> with the attributes of the original
  function, followed by the copy of the semantics attributes and of the ownership flag.
\<close>

definition createFunction :: "Host \<Rightarrow> SILFunction \<Rightarrow> string \<Rightarrow> SILFunctionType \<Rightarrow> SILFunction" where
  "createFunction H F SpecName NewFTy =
     \<lparr>Name = SpecName,
      Linkage = getSpecializedLinkage H F (Linkage F),
      LoweredFunctionType = NewFTy,
      isBare = isBare F,
      isTransparent = isTransparent F,
      SerializedKind = SerializedKind F,
      isDynamic = False,
      isDistributed = False,
      isRuntimeAccessible = False,
      EntryCount = EntryCount F,
      isThunk = isThunk F,
      ClassSubclassScope = ClassSubclassScope F,
      InlineStrategy = InlineStrategy F,
      EffectsKind = EffectsKind F,
      SemanticsAttrs = SemanticsAttrs F,
      hasOwnership = hasOwnership F,
      Blocks = []\<rparr>"

text \<open>Step 1 of \<^verbatim>\<open>createExistentialSpecializedFunction\<close>: look the name up, or create and clone.\<close>

definition lookUpOrCreate ::
  "Host \<Rightarrow> SILModule \<Rightarrow> SILFunction \<Rightarrow> ArgumentDescriptor list \<Rightarrow> ExistentialArgDescriptorMap
     \<Rightarrow> string \<Rightarrow> SILFunctionType \<Rightarrow> (nat \<rightharpoonup> GenericTypeParamType)
     \<Rightarrow> error + (SILModule \<times> SILFunction)" where
  "lookUpOrCreate H M F ArgumentDescList E SpecName NewFTy A2G =
     (case M SpecName of
        Some CachedFn \<Rightarrow>
          if LoweredFunctionType CachedFn = NewFTy then Inr (M, CachedFn)
          else Inl CachedTypeMismatch
      | None \<Rightarrow>
          (case cloneAndPopulateFunction H F (createFunction H F SpecName NewFTy)
                  A2G E ArgumentDescList of
             Inl e \<Rightarrow> Inl e
           | Inr NewF \<Rightarrow> Inr (M(SpecName \<mapsto> NewF), NewF)))"

definition createExistentialSpecializedFunction ::
  "Host \<Rightarrow> SILModule \<Rightarrow> SILFunction \<Rightarrow> ArgumentDescriptor list \<Rightarrow> ExistentialArgDescriptorMap
     \<Rightarrow> error + (SILModule \<times> SILFunction \<times> SILFunction)" where
  "createExistentialSpecializedFunction H M F ArgumentDescList E =
    (let SpecName = createExistentialSpecializedFunctionName H F E
     in case createExistentialSpecializedFunctionType H F E Map.empty of
          Inl e \<Rightarrow> Inl e
        | Inr (NewFTy, A2G) \<Rightarrow>
           (case lookUpOrCreate H M F ArgumentDescList E SpecName NewFTy A2G of
              Inl e \<Rightarrow> Inl e
            | Inr (M', NewF) \<Rightarrow>
               (case populateThunkBody H F NewF ArgumentDescList A2G E of
                  Inl e \<Rightarrow> Inl e
                | Inr F' \<Rightarrow> Inr (M', F', NewF))))"

subsection \<open>Auxiliary notions for the proofs\<close>

text \<open>The cloner's lists only grow: every list of \<open>t\<close> has the one of \<open>s\<close> as a prefix.\<close>

definition extends :: "ClonerState \<Rightarrow> ClonerState \<Rightarrow> bool" where
  "extends s t =
     ((\<exists>x. AllocStackInsts t = AllocStackInsts s @ x) \<and>
      (\<exists>x. CleanupValues t = CleanupValues s @ x) \<and>
      (\<exists>x. entryArgs t = entryArgs s @ x) \<and>
      (\<exists>x. ClonedEntryBBArgs t = ClonedEntryBBArgs s @ x) \<and>
      (\<exists>x. ClonedEntryBBInsts t = ClonedEntryBBInsts s @ x))"

text \<open>
  The two forms of value that the prologue registers for destruction: a stack slot, and
  an existential reference made from a copy.
\<close>

fun registeredShape :: "SILValue \<Rightarrow> bool" where
  "registeredShape (AllocStackInst i T) = True"
| "registeredShape (InitExistentialRefInst T C (CopyValueOperation v) c) = True"
| "registeredShape v = False"

text \<open>
  The descriptors on which an iteration of the prologue loop does not stop: an
  argument that is not rewritten needs a parameter at its index; a rewritten one needs
  a lowered generic type that is not an existential and one of the two handled
  representations. Whether the argument is consumed and what its ownership kind is
  play no part.
\<close>

definition argumentOk ::
  "Host \<Rightarrow> SILFunction \<Rightarrow> (nat \<rightharpoonup> GenericTypeParamType) \<Rightarrow> ArgumentDescriptor \<Rightarrow> bool" where
  "argumentOk H NewF A2G ArgDesc =
     (case A2G (Index ArgDesc) of
        None \<Rightarrow> Index ArgDesc < length (Parameters (LoweredFunctionType NewF))
      | Some GenericParam \<Rightarrow>
          \<not> isAnyExistentialType H
              (ASTType (getLoweredType H NewF
                 (mapTypeIntoContext H NewF (GenericParamTy GenericParam)))) \<and>
          (getPreferredExistentialRepresentation H (ArgType (Arg ArgDesc)) = Opaque \<or>
           getPreferredExistentialRepresentation H (ArgType (Arg ArgDesc)) = Class))"

text \<open>
  What the prologue is to register for destruction for one descriptor, given the entry
  argument made for it: the stack slot of an opaque existential that is not consumed,
  the reference boxed from the copy of a class existential that is Unowned in a function
  with ownership, and nothing otherwise.
\<close>

definition registeredForCleanup ::
  "Host \<Rightarrow> SILFunction \<Rightarrow> (nat \<rightharpoonup> GenericTypeParamType) \<Rightarrow> ExistentialArgDescriptorMap
     \<Rightarrow> ArgumentDescriptor \<Rightarrow> SILArgument \<Rightarrow> SILValue list" where
  "registeredForCleanup H NewF A2G E ArgDesc NewArg =
     (case A2G (Index ArgDesc) of
        None \<Rightarrow> []
      | Some GenericParam \<Rightarrow>
          (case getPreferredExistentialRepresentation H (ArgType (Arg ArgDesc)) of
             Opaque \<Rightarrow>
               if isConsumed (lookupOrDefault E (Index ArgDesc)) then []
               else [AllocStackInst (Index ArgDesc) (ArgType (Arg ArgDesc))]
           | Class \<Rightarrow>
               if hasOwnership NewF \<and> ArgOwnershipKind NewArg = Unowned
               then [InitExistentialRefInst (getObjectType (ArgType (Arg ArgDesc)))
                       (ASTType (ArgType NewArg)) (CopyValueOperation (ArgumentValue NewArg))
                       (collectExistentialConformances (ASTType (ArgType NewArg))
                          (ASTType (getObjectType (ArgType (Arg ArgDesc)))))]
               else []
           | _ \<Rightarrow> []))"

text \<open>
  What the exit handling would insert if the cleanup values were destroyed in reverse
  order of registration, as the stack slots are deallocated.
\<close>

definition exitCleanupReversed :: "ClonerState \<Rightarrow> SILInstruction list" where
  "exitCleanupReversed st =
     map DestroyOperation (rev (CleanupValues st)) @
     map DeallocStackInst (rev (AllocStackInsts st))"

subsection \<open>Concrete instances\<close>

text \<open>
  A small host: \<open>any P\<close> is an opaque existential, \<open>any C\<close> a class existential, a
  generic parameter lowers to its archetype, the generic cloner prepends the new
  prologue to the entry block of the original body and keeps the other blocks, and the
  function exits are the blocks ending in return, throw or unreachable.
\<close>

definition exampleHost :: Host where
  "exampleHost =
     \<lparr>mangle = (\<lambda>n is. n @ ''Tf'' @ map (\<lambda>i. if i < 10 then ''0123456789'' ! i else CHR ''x'') is),
      isExistentialType = (\<lambda>T. case T of ExistentialType c \<Rightarrow> True | _ \<Rightarrow> False),
      isAnyExistentialType = (\<lambda>T. case T of ExistentialType c \<Rightarrow> True | _ \<Rightarrow> False),
      getPreferredExistentialRepresentation =
        (\<lambda>T. case ASTType T of
               ExistentialType c \<Rightarrow> (if c = NominalType ''C'' then Class else Opaque)
             | _ \<Rightarrow> NoRepresentation),
      getArgumentType = (\<lambda>FTy p. ParamType p),
      mapTypeIntoContext = (\<lambda>F T. case T of GenericParamTy g \<Rightarrow> ArchetypeType T | _ \<Rightarrow> T),
      getLoweredType = (\<lambda>F T. \<lparr>ASTType = T, Category = Object\<rparr>),
      getArgumentConvention =
        (\<lambda>a. case ArgOwnershipKind a of
               Unowned \<Rightarrow> ArgParameter Direct_Unowned
             | Owned \<Rightarrow> ArgParameter Direct_Owned
             | Guaranteed \<Rightarrow> ArgParameter Direct_Guaranteed
             | _ \<Rightarrow> ArgParameter Indirect_In_Guaranteed),
      ValueOwnershipKind =
        (\<lambda>F T c. if c = ArgParameter Direct_Unowned then Unowned
                 else if c = ArgParameter Direct_Owned then Owned
                 else if c = ArgParameter Direct_Guaranteed then Guaranteed
                 else NoOwnership),
      defaultArgumentOwnership = (\<lambda>F n T. NoOwnership),
      getReducedType = (\<lambda>sig g. GenericParamTy g),
      buildGenericSignature =
        (\<lambda>sig ps rs. \<lparr>GenericParams = GenericParams sig @ ps,
                      Requirements = Requirements sig @ rs\<rparr>),
      cloneFunctionBody =
        (\<lambda>F args insts vals.
           case Blocks F of
             [] \<Rightarrow> []
           | BB # rest \<Rightarrow>
               \<lparr>Arguments = args, Instructions = insts @ Instructions BB,
                Terminator = Terminator BB\<rparr> # rest),
      isFunctionExiting =
        (\<lambda>t. case t of ReturnInst v \<Rightarrow> True | ThrowInst v \<Rightarrow> True
              | UnreachableInst \<Rightarrow> True | _ \<Rightarrow> False),
      getSpecializedLinkage = (\<lambda>F l. Shared),
      isNoReturnFunction = (\<lambda>F. False),
      substForwarding = (\<lambda>F g. GenericParamTy g),
      substGenericArgs = (\<lambda>T m. T),
      getSILResultType = (\<lambda>T. \<lparr>ASTType = NominalType ''Int'', Category = Object\<rparr>),
      getSILType = (\<lambda>T r. \<lparr>ASTType = ResultType r, Category = Object\<rparr>)\<rparr>"

definition anyP :: SILType where
  "anyP = \<lparr>ASTType = ExistentialType (NominalType ''P''), Category = Address\<rparr>"

definition anyC :: SILType where
  "anyC = \<lparr>ASTType = ExistentialType (NominalType ''C''), Category = Object\<rparr>"

definition intTy :: SILType where
  "intTy = \<lparr>ASTType = NominalType ''Int'', Category = Object\<rparr>"

definition exampleArgument :: "nat \<Rightarrow> SILType \<Rightarrow> OwnershipKind \<Rightarrow> SILArgument" where
  "exampleArgument i T k =
     \<lparr>ParentBlock = 0, ArgIndex = i, ArgType = T, ArgDecl = None,
      ArgOwnershipKind = k, ArgFlags = 0\<rparr>"

definition exampleArg :: "nat \<Rightarrow> SILType \<Rightarrow> OwnershipKind \<Rightarrow> ArgumentDescriptor" where
  "exampleArg i T k = \<lparr>Arg = exampleArgument i T k, Index = i, Decl = None\<rparr>"

definition exampleParam :: "CanType \<Rightarrow> ParameterConvention \<Rightarrow> SILParameterInfo" where
  "exampleParam T c = \<lparr>ParamType = T, ParamConvention = c, ParamOptions = 0\<rparr>"

definition exampleBody :: "SILArgument list \<Rightarrow> SILBasicBlock list" where
  "exampleBody args =
     [\<lparr>Arguments = args, Instructions = [OtherInst 0],
       Terminator = ReturnInst (OtherValue 1 NoOwnership)\<rparr>]"

definition exampleType ::
  "GenericSignature \<Rightarrow> SILParameterInfo list \<Rightarrow> SILResultInfo option \<Rightarrow> SILFunctionType" where
  "exampleType sig ps err =
     \<lparr>InvocationGenericSignature = sig,
      ExtInfo = \<lparr>Representation = Thin, OtherExtBits = 0\<rparr>,
      CoroutineKind = NotCoroutine, CalleeConvention = Direct_Unowned,
      Parameters = ps, Yields = [],
      Results = [\<lparr>ResultType = NominalType ''Int'', ResultConv = ResUnowned\<rparr>],
      ErrorResult = err\<rparr>"

definition exampleFunction ::
  "string \<Rightarrow> SILLinkage \<Rightarrow> SILFunctionType \<Rightarrow> bool \<Rightarrow> SILBasicBlock list \<Rightarrow> SILFunction" where
  "exampleFunction n l T own bs =
     \<lparr>Name = n, Linkage = l, LoweredFunctionType = T,
      isBare = False, isTransparent = False, SerializedKind = 0, isDynamic = False,
      isDistributed = False, isRuntimeAccessible = False, EntryCount = 0,
      isThunk = IsNotThunk, ClassSubclassScope = 0, InlineStrategy = InlineDefault,
      EffectsKind = 0, SemanticsAttrs = [], hasOwnership = own, Blocks = bs\<rparr>"

definition noSignature :: GenericSignature where
  "noSignature = \<lparr>GenericParams = [], Requirements = []\<rparr>"

definition tau :: "nat \<Rightarrow> CanType" where
  "tau g = GenericParamTy (GenericTypeParam 0 g)"

definition conformsTo :: "nat \<Rightarrow> string \<Rightarrow> Requirement" where
  "conformsTo g P = Requirement Conformance (tau g) (NominalType P)"

text \<open>The entry argument, stack slot and boxed address that the prologue makes for an
  opaque existential at position \<open>n\<close> that became generic parameter \<open>g\<close>.\<close>

definition genericArgument :: "nat \<Rightarrow> nat \<Rightarrow> SILValueCategory \<Rightarrow> OwnershipKind \<Rightarrow> SILArgument" where
  "genericArgument n g c k =
     exampleArgument n \<lparr>ASTType = ArchetypeType (tau g), Category = c\<rparr> k"

definition slot :: "nat \<Rightarrow> SILValue" where
  "slot n = AllocStackInst n anyP"

definition boxedAddr :: "nat \<Rightarrow> nat \<Rightarrow> SILValue" where
  "boxedAddr n g =
     InitExistentialAddrInst (slot n) (ArchetypeType (tau g))
       \<lparr>ASTType = ArchetypeType (tau g), Category = Address\<rparr>
       (collectExistentialConformances (ArchetypeType (tau g)) (ExistentialType (NominalType ''P'')))"

definition opaquePrologue :: "nat \<Rightarrow> nat \<Rightarrow> SILInstruction list" where
  "opaquePrologue n g =
     [ValueInst (slot n), ValueInst (boxedAddr n g),
      CopyAddrInst (ArgumentValue (genericArgument n g Address NoOwnership)) (boxedAddr n g)
        IsNotTake IsInitialization]"

text \<open>\<open>F(x: any P) -> Int\<close>, \<open>x\<close> opaque and borrowed.\<close>

definition argsA :: "ArgumentDescriptor list" where
  "argsA = [exampleArg 0 anyP NoOwnership]"

definition funcA :: SILFunction where
  "funcA = exampleFunction ''F'' Public
             (exampleType noSignature [exampleParam (ASTType anyP) Indirect_In_Guaranteed] None)
             True (exampleBody (map Arg argsA))"

definition descA :: ExistentialArgDescriptorMap where
  "descA = [(0, \<lparr>AccessType = Immutable, isConsumed = False\<rparr>)]"

definition genericMapA :: "nat \<rightharpoonup> GenericTypeParamType" where
  "genericMapA = [0 \<mapsto> GenericTypeParam 0 0]"

definition twinTypeA :: SILFunctionType where
  "twinTypeA = exampleType \<lparr>GenericParams = [GenericTypeParam 0 0], Requirements = [conformsTo 0 ''P'']\<rparr>
                 [exampleParam (tau 0) Indirect_In_Guaranteed] None"

definition newFunctionA :: SILFunction where
  "newFunctionA = exampleFunction ''FTf0'' Shared twinTypeA True []"

definition stateA :: ClonerState where
  "stateA =
     \<lparr>AllocStackInsts = [slot 0], CleanupValues = [slot 0], entryArgs = [slot 0],
      ClonedEntryBBArgs = [genericArgument 0 0 Address NoOwnership],
      ClonedEntryBBInsts = opaquePrologue 0 0\<rparr>"

definition twinA :: SILFunction where
  "twinA = newFunctionA\<lparr>Blocks :=
     [\<lparr>Arguments = [genericArgument 0 0 Address NoOwnership],
       Instructions = opaquePrologue 0 0 @
         [OtherInst 0, DestroyOperation (slot 0), DeallocStackInst (slot 0)],
       Terminator = ReturnInst (OtherValue 1 NoOwnership)\<rparr>]\<rparr>"

definition openedA :: SILValue where
  "openedA = OpenExistentialAddrInst (ArgumentValue (exampleArgument 0 anyP NoOwnership))
               \<lparr>ASTType = ExistentialArchetypeType (ASTType anyP), Category = Object\<rparr> Immutable"

definition callA :: SILValue where
  "callA = ApplyInst (FunctionRefInst ''FTf0'')
             [(GenericTypeParam 0 0, ExistentialArchetypeType (ASTType anyP))] [openedA]"

definition thunkA :: SILFunction where
  "thunkA = funcA\<lparr>isThunk := IsSignatureOptimizedThunk, InlineStrategy := AlwaysInline,
     Blocks :=
       [\<lparr>Arguments = [exampleArgument 0 anyP NoOwnership],
         Instructions = [ValueInst (FunctionRefInst ''FTf0''), ValueInst openedA, ValueInst callA],
         Terminator = ReturnInst callA\<rparr>]\<rparr>"

text \<open>
  \<open>F(a: Int, x: any P, b: Int, c: Int, y: any P) -> Int\<close>, \<open>x\<close> and \<open>y\<close> opaque and
  borrowed; the descriptor map is visited in the order 4, 1.
\<close>

definition argsB :: "ArgumentDescriptor list" where
  "argsB = [exampleArg 0 intTy NoOwnership, exampleArg 1 anyP NoOwnership,
            exampleArg 2 intTy NoOwnership, exampleArg 3 intTy NoOwnership,
            exampleArg 4 anyP NoOwnership]"

definition funcB :: SILFunction where
  "funcB = exampleFunction ''F'' Public
             (exampleType noSignature
                [exampleParam (ASTType intTy) Direct_Unowned,
                 exampleParam (ASTType anyP) Indirect_In_Guaranteed,
                 exampleParam (ASTType intTy) Direct_Unowned,
                 exampleParam (ASTType intTy) Direct_Unowned,
                 exampleParam (ASTType anyP) Indirect_In_Guaranteed] None)
             True (exampleBody (map Arg argsB))"

definition descB :: ExistentialArgDescriptorMap where
  "descB = [(4, \<lparr>AccessType = Immutable, isConsumed = False\<rparr>),
            (1, \<lparr>AccessType = Immutable, isConsumed = False\<rparr>)]"

definition genericMapB :: "nat \<rightharpoonup> GenericTypeParamType" where
  "genericMapB = [4 \<mapsto> GenericTypeParam 0 0, 1 \<mapsto> GenericTypeParam 0 1]"

definition convertedB :: ConvertState where
  "convertedB =
     \<lparr>genericParams = [GenericTypeParam 0 0, GenericTypeParam 0 1],
      requirements = [conformsTo 0 ''P'', conformsTo 1 ''P''],
      ArgToGenericTypeMap = genericMapB, GPIdx = 2\<rparr>"

definition twinTypeB :: SILFunctionType where
  "twinTypeB = exampleType
                 \<lparr>GenericParams = genericParams convertedB, Requirements = requirements convertedB\<rparr>
                 [exampleParam (ASTType intTy) Direct_Unowned,
                  exampleParam (tau 1) Indirect_In_Guaranteed,
                  exampleParam (ASTType intTy) Direct_Unowned,
                  exampleParam (ASTType intTy) Direct_Unowned,
                  exampleParam (tau 0) Indirect_In_Guaranteed] None"

definition newFunctionB :: SILFunction where
  "newFunctionB = exampleFunction ''FTf41'' Shared twinTypeB True []"

definition stateB :: ClonerState where
  "stateB =
     \<lparr>AllocStackInsts = [slot 1, slot 4], CleanupValues = [slot 1, slot 4],
      entryArgs = [ArgumentValue (exampleArgument 0 intTy NoOwnership), slot 1,
                   ArgumentValue (exampleArgument 2 intTy NoOwnership),
                   ArgumentValue (exampleArgument 3 intTy NoOwnership), slot 4],
      ClonedEntryBBArgs =
        [exampleArgument 0 intTy NoOwnership, genericArgument 1 1 Address NoOwnership,
         exampleArgument 2 intTy NoOwnership, exampleArgument 3 intTy NoOwnership,
         genericArgument 4 0 Address NoOwnership],
      ClonedEntryBBInsts = opaquePrologue 1 1 @ opaquePrologue 4 0\<rparr>"

definition twinB :: SILFunction where
  "twinB = newFunctionB\<lparr>Blocks :=
     [\<lparr>Arguments = ClonedEntryBBArgs stateB,
       Instructions = ClonedEntryBBInsts stateB @
         [OtherInst 0,
          DestroyOperation (slot 1), DestroyOperation (slot 4),
          DeallocStackInst (slot 4), DeallocStackInst (slot 1)],
       Terminator = ReturnInst (OtherValue 1 NoOwnership)\<rparr>]\<rparr>"

text \<open>\<open>F(x: any C) throws -> Int\<close>, \<open>x\<close> a class existential passed unowned; with and
  without ownership in the function.\<close>

definition argsC :: "ArgumentDescriptor list" where
  "argsC = [exampleArg 0 anyC Unowned]"

definition errorResultC :: SILResultInfo where
  "errorResultC = \<lparr>ResultType = NominalType ''Error'', ResultConv = ResOwned\<rparr>"

definition funcC :: "bool \<Rightarrow> SILFunction" where
  "funcC own = exampleFunction ''F'' Public
                 (exampleType noSignature [exampleParam (ASTType anyC) Direct_Unowned]
                    (Some errorResultC))
                 own (exampleBody (map Arg argsC))"

definition descC :: ExistentialArgDescriptorMap where
  "descC = [(0, \<lparr>AccessType = Immutable, isConsumed = False\<rparr>)]"

definition twinTypeC :: SILFunctionType where
  "twinTypeC = exampleType \<lparr>GenericParams = [GenericTypeParam 0 0], Requirements = [conformsTo 0 ''C'']\<rparr>
                 [exampleParam (tau 0) Direct_Unowned] (Some errorResultC)"

definition newFunctionC :: "bool \<Rightarrow> SILFunction" where
  "newFunctionC own = exampleFunction ''FTf0'' Shared twinTypeC own []"

definition copiedC :: SILValue where
  "copiedC = CopyValueOperation (ArgumentValue (genericArgument 0 0 Object Unowned))"

definition boxedRef :: "SILValue \<Rightarrow> SILValue" where
  "boxedRef v =
     InitExistentialRefInst anyC (ArchetypeType (tau 0)) v
       (collectExistentialConformances (ArchetypeType (tau 0)) (ExistentialType (NominalType ''C'')))"

definition stateC :: "bool \<Rightarrow> ClonerState" where
  "stateC own =
     (if own then
        \<lparr>AllocStackInsts = [], CleanupValues = [boxedRef copiedC], entryArgs = [boxedRef copiedC],
         ClonedEntryBBArgs = [genericArgument 0 0 Object Unowned],
         ClonedEntryBBInsts = [ValueInst copiedC, ValueInst (boxedRef copiedC)]\<rparr>
      else
        \<lparr>AllocStackInsts = [], CleanupValues = [],
         entryArgs = [boxedRef (ArgumentValue (genericArgument 0 0 Object Unowned))],
         ClonedEntryBBArgs = [genericArgument 0 0 Object Unowned],
         ClonedEntryBBInsts =
           [ValueInst (boxedRef (ArgumentValue (genericArgument 0 0 Object Unowned)))]\<rparr>)"

definition thunkArgC :: SILArgument where
  "thunkArgC = exampleArgument 0 anyC NoOwnership"

definition openedC :: SILValue where
  "openedC = OpenExistentialRefInst (CopyValueOperation (ArgumentValue thunkArgC))
               \<lparr>ASTType = ExistentialArchetypeType (ASTType anyC), Category = Object\<rparr>"

definition normalArgC :: SILArgument where
  "normalArgC = \<lparr>ParentBlock = 1, ArgIndex = 0, ArgType = intTy, ArgDecl = None,
                  ArgOwnershipKind = Owned, ArgFlags = 0\<rparr>"

definition errorArgC :: SILArgument where
  "errorArgC = \<lparr>ParentBlock = 2, ArgIndex = 0,
                 ArgType = \<lparr>ASTType = NominalType ''Error'', Category = Object\<rparr>,
                 ArgDecl = None, ArgOwnershipKind = Owned, ArgFlags = 0\<rparr>"

definition substitutionsC :: SubstitutionMap where
  "substitutionsC = [(GenericTypeParam 0 0, ExistentialArchetypeType (ASTType anyC))]"

definition thunkC :: SILFunction where
  "thunkC = (funcC True)\<lparr>isThunk := IsSignatureOptimizedThunk, InlineStrategy := AlwaysInline,
     Blocks :=
       [\<lparr>Arguments = [thunkArgC],
         Instructions = [ValueInst (FunctionRefInst ''FTf0''),
                         ValueInst (CopyValueOperation (ArgumentValue thunkArgC)),
                         ValueInst openedC],
         Terminator = TryApplyInst (FunctionRefInst ''FTf0'') substitutionsC [openedC] 1 2\<rparr>,
        \<lparr>Arguments = [normalArgC], Instructions = [DestroyOperation openedC],
         Terminator = ReturnInst (ArgumentValue normalArgC)\<rparr>,
        \<lparr>Arguments = [errorArgC], Instructions = [],
         Terminator = ThrowInst (ArgumentValue errorArgC)\<rparr>]\<rparr>"

text \<open>\<open>F(x: any P) -> Int\<close>, \<open>x\<close> opaque and consumed.\<close>

definition descD :: ExistentialArgDescriptorMap where
  "descD = [(0, \<lparr>AccessType = Mutable, isConsumed = True\<rparr>)]"

definition twinTypeD :: SILFunctionType where
  "twinTypeD = exampleType \<lparr>GenericParams = [GenericTypeParam 0 0], Requirements = [conformsTo 0 ''P'']\<rparr>
                 [exampleParam (tau 0) Indirect_In] None"

definition newFunctionD :: SILFunction where
  "newFunctionD = exampleFunction ''FTf0'' Shared twinTypeD True []"

definition stateD :: ClonerState where
  "stateD =
     \<lparr>AllocStackInsts = [slot 0], CleanupValues = [], entryArgs = [slot 0],
      ClonedEntryBBArgs = [genericArgument 0 0 Address NoOwnership],
      ClonedEntryBBInsts =
        [ValueInst (slot 0), ValueInst (boxedAddr 0 0),
         CopyAddrInst (ArgumentValue (genericArgument 0 0 Address NoOwnership)) (boxedAddr 0 0)
           IsTake IsInitialization]\<rparr>"

text \<open>\<open>F(x: any C) -> Int\<close>, \<open>x\<close> a class existential passed owned, in a function
  with ownership.\<close>

definition argsE :: "ArgumentDescriptor list" where
  "argsE = [exampleArg 0 anyC Owned]"

definition descE :: ExistentialArgDescriptorMap where
  "descE = [(0, \<lparr>AccessType = Immutable, isConsumed = True\<rparr>)]"

definition twinTypeE :: SILFunctionType where
  "twinTypeE = exampleType \<lparr>GenericParams = [GenericTypeParam 0 0], Requirements = [conformsTo 0 ''C'']\<rparr>
                 [exampleParam (tau 0) Direct_Owned] None"

definition newFunctionE :: SILFunction where
  "newFunctionE = exampleFunction ''FTf0'' Shared twinTypeE True []"

definition stateE :: ClonerState where
  "stateE =
     \<lparr>AllocStackInsts = [], CleanupValues = [],
      entryArgs = [boxedRef (ArgumentValue (genericArgument 0 0 Object Owned))],
      ClonedEntryBBArgs = [genericArgument 0 0 Object Owned],
      ClonedEntryBBInsts =
        [ValueInst (boxedRef (ArgumentValue (genericArgument 0 0 Object Owned)))]\<rparr>"

section \<open>Properties\<close>

subsection \<open>Evaluation of the concrete instances\<close>

lemmas example_defs =
  exampleHost_def anyP_def anyC_def intTy_def exampleArgument_def exampleArg_def
  exampleParam_def exampleBody_def exampleType_def exampleFunction_def noSignature_def
  tau_def conformsTo_def genericArgument_def slot_def boxedAddr_def opaquePrologue_def
  argsA_def funcA_def descA_def genericMapA_def twinTypeA_def newFunctionA_def stateA_def
  twinA_def openedA_def callA_def thunkA_def
  argsB_def funcB_def descB_def genericMapB_def convertedB_def twinTypeB_def newFunctionB_def
  stateB_def twinB_def
  argsC_def errorResultC_def funcC_def descC_def twinTypeC_def newFunctionC_def copiedC_def
  boxedRef_def stateC_def thunkArgC_def openedC_def normalArgC_def errorArgC_def
  substitutionsC_def thunkC_def
  descD_def twinTypeD_def newFunctionD_def stateD_def
  argsE_def descE_def twinTypeE_def newFunctionE_def stateE_def

lemmas cloner_defs =
  cloneArguments_def cloneArgument_def initialClonerState_def lookupOrDefault_def
  getObjectType_def getCategoryType_def isObject_def Let_def

lemma cloneArguments_A:
  "cloneArguments exampleHost newFunctionA genericMapA descA argsA = Inr stateA"
  by (simp add: cloner_defs example_defs)

lemma cloneAndPopulate_A:
  "cloneAndPopulateFunction exampleHost funcA newFunctionA genericMapA descA argsA = Inr twinA"
  by (simp add: cloneAndPopulateFunction_def cloner_defs example_defs)

lemma cloneArguments_B:
  "cloneArguments exampleHost newFunctionB genericMapB descB argsB = Inr stateB"
  by (simp add: cloner_defs example_defs)

lemma cloneAndPopulate_B:
  "cloneAndPopulateFunction exampleHost funcB newFunctionB genericMapB descB argsB = Inr twinB"
  by (simp add: cloneAndPopulateFunction_def cloner_defs example_defs)

lemma cloneArguments_C:
  "cloneArguments exampleHost (newFunctionC own) genericMapA descC argsC = Inr (stateC own)"
  by (simp add: cloner_defs example_defs)

lemma cloneArguments_D:
  "cloneArguments exampleHost newFunctionD genericMapA descD argsA = Inr stateD"
  by (simp add: cloner_defs example_defs)

lemma cloneArguments_E:
  "cloneArguments exampleHost newFunctionE genericMapA descE argsE = Inr stateE"
  by (simp add: cloner_defs example_defs)

subsection \<open>The exit handling\<close>

lemma destroyCleanupValues_Inr:
  "destroyCleanupValues vs = Inr ds \<Longrightarrow> ds = map DestroyOperation vs"
  by (induction vs arbitrary: ds) (auto split: if_splits sum.splits)

lemma destroyCleanupValues_Inl:
  "destroyCleanupValues vs = Inl e \<Longrightarrow>
   e = CleanupValueIsGuaranteed \<and> (\<exists>v\<in>set vs. getOwnershipKind v = Guaranteed)"
  by (induction vs) (auto split: if_splits sum.splits)

lemma cleanupExitingBlocks_Inr:
  "cleanupExitingBlocks H st bs = Inr bs' \<Longrightarrow>
   bs' = map (\<lambda>BB. if isFunctionExiting H (Terminator BB)
                    then BB\<lparr>Instructions := Instructions BB
                           @ map DestroyOperation (CleanupValues st)
                           @ map DeallocStackInst (rev (AllocStackInsts st))\<rparr>
                    else BB) bs"
  by (induction bs arbitrary: bs')
     (auto split: if_splits sum.splits dest: destroyCleanupValues_Inr)

lemma cleanupExitingBlocks_Inl:
  "cleanupExitingBlocks H st bs = Inl e \<Longrightarrow>
   e = CleanupValueIsGuaranteed \<and> (\<exists>v\<in>set (CleanupValues st). getOwnershipKind v = Guaranteed)"
  by (induction bs) (auto split: if_splits sum.splits dest: destroyCleanupValues_Inl)

text \<open>
  C2, as the code has it. In the generic function, every block that is a function exit
  gets, after its cloned instructions and before its terminator, one destroy per
  registered cleanup value, in the order of registration, followed by one deallocation
  per registered stack slot, in reverse order of registration; the other blocks and all
  terminators are left as cloned. Both lists are read once per exit.
\<close>

theorem exits_destroy_then_dealloc:
  assumes "cloneAndPopulateFunction H OrigF NewF A2G E ADL = Inr Twin"
  shows "\<exists>st. cloneArguments H NewF A2G E ADL = Inr st \<and>
           Blocks Twin =
             map (\<lambda>BB. if isFunctionExiting H (Terminator BB)
                        then BB\<lparr>Instructions := Instructions BB
                               @ map DestroyOperation (CleanupValues st)
                               @ map DeallocStackInst (rev (AllocStackInsts st))\<rparr>
                        else BB)
                 (cloneFunctionBody H OrigF (ClonedEntryBBArgs st) (ClonedEntryBBInsts st)
                    (entryArgs st))"
  using assms unfolding cloneAndPopulateFunction_def
  by (auto split: sum.splits dest: cleanupExitingBlocks_Inr)

theorem exits_destroy_then_dealloc_witness:
  "cloneArguments exampleHost newFunctionB genericMapB descB argsB = Inr stateB \<and>
   Blocks twinB =
     [\<lparr>Arguments = ClonedEntryBBArgs stateB,
       Instructions = ClonedEntryBBInsts stateB @ [OtherInst 0]
         @ [DestroyOperation (slot 1), DestroyOperation (slot 4)]
         @ [DeallocStackInst (slot 4), DeallocStackInst (slot 1)],
       Terminator = ReturnInst (OtherValue 1 NoOwnership)\<rparr>]"
proof -
  from exits_destroy_then_dealloc [OF cloneAndPopulate_B]
  obtain st where "cloneArguments exampleHost newFunctionB genericMapB descB argsB = Inr st"
    and "Blocks twinB =
           map (\<lambda>BB. if isFunctionExiting exampleHost (Terminator BB)
                      then BB\<lparr>Instructions := Instructions BB
                             @ map DestroyOperation (CleanupValues st)
                             @ map DeallocStackInst (rev (AllocStackInsts st))\<rparr>
                      else BB)
               (cloneFunctionBody exampleHost funcB (ClonedEntryBBArgs st)
                  (ClonedEntryBBInsts st) (entryArgs st))"
    by blast
  moreover from this(1) have "st = stateB" by (simp add: cloneArguments_B)
  ultimately show ?thesis
    by (simp add: stateB_def exampleHost_def funcB_def exampleFunction_def exampleBody_def)
qed

text \<open>
  C2 as stated fails: with the two cleanup values \<open>slot 1\<close>, \<open>slot 4\<close> registered in this
  order, the exit block destroys \<open>slot 1\<close> first, which is not the reverse order.
\<close>

theorem exits_destroy_in_reverse_counterexample:
  "cloneArguments exampleHost newFunctionB genericMapB descB argsB = Inr stateB \<and>
   CleanupValues stateB = [slot 1, slot 4] \<and>
   cloneAndPopulateFunction exampleHost funcB newFunctionB genericMapB descB argsB = Inr twinB \<and>
   map Instructions (Blocks twinB)
     = [ClonedEntryBBInsts stateB @ [OtherInst 0]
          @ [DestroyOperation (slot 1), DestroyOperation (slot 4),
             DeallocStackInst (slot 4), DeallocStackInst (slot 1)]] \<and>
   map Instructions (Blocks twinB)
     \<noteq> [ClonedEntryBBInsts stateB @ [OtherInst 0] @ exitCleanupReversed stateB]"
  by (simp add: cloneArguments_B cloneAndPopulate_B)
     (simp add: twinB_def stateB_def exitCleanupReversed_def slot_def)

subsection \<open>The prologue of the generic function\<close>

lemma extends_refl: "extends s s"
  by (simp add: extends_def)

lemma extends_trans: "extends s t \<Longrightarrow> extends t u \<Longrightarrow> extends s u"
  unfolding extends_def by (elim conjE exE) simp

lemmas cloneArgument_splits =
  option.splits if_splits ExistentialRepresentation.splits

lemma cloneArgument_extends:
  assumes "cloneArgument H NewF A2G E ad st = Inr st'"
  shows "extends st st'"
  using assms unfolding cloneArgument_def extends_def
  by (auto simp: Let_def split: cloneArgument_splits)

lemma cloneArgument_lengths:
  assumes "cloneArgument H NewF A2G E ad st = Inr st'"
  shows "length (entryArgs st') = Suc (length (entryArgs st))"
    and "length (ClonedEntryBBArgs st') = Suc (length (ClonedEntryBBArgs st))"
  using assms unfolding cloneArgument_def
  by (auto simp: Let_def split: cloneArgument_splits)

text \<open>What one iteration can add to the lists, read backwards from its result.\<close>

lemma cloneArgument_shape:
  assumes "cloneArgument H NewF A2G E ad st = Inr st'"
    and "\<forall>v\<in>set (CleanupValues st). registeredShape v"
  shows "\<forall>v\<in>set (CleanupValues st'). registeredShape v"
  using assms unfolding cloneArgument_def
  by (auto simp: Let_def split: cloneArgument_splits)

lemma cloneArgument_slot_registered:
  assumes "cloneArgument H NewF A2G E ad st = Inr st'"
    and "AllocStackInst i T \<in> set (CleanupValues st')"
  shows "AllocStackInst i T \<in> set (CleanupValues st) \<or> \<not> isConsumed (lookupOrDefault E i)"
  using assms unfolding cloneArgument_def
  by (auto simp: Let_def split: cloneArgument_splits)

lemma cloneArgument_copy_addr:
  assumes "cloneArgument H NewF A2G E ad st = Inr st'"
    and "CopyAddrInst src (InitExistentialAddrInst (AllocStackInst i T) A S c) t ini
           \<in> set (ClonedEntryBBInsts st')"
  shows "CopyAddrInst src (InitExistentialAddrInst (AllocStackInst i T) A S c) t ini
           \<in> set (ClonedEntryBBInsts st)
         \<or> t = (if isConsumed (lookupOrDefault E i) then IsTake else IsNotTake)"
  using assms unfolding cloneArgument_def
  by (auto simp: Let_def split: cloneArgument_splits)

lemma cloneArgument_copy_value:
  assumes "cloneArgument H NewF A2G E ad st = Inr st'"
    and "ValueInst (CopyValueOperation (ArgumentValue a)) \<in> set (ClonedEntryBBInsts st')"
  shows "ValueInst (CopyValueOperation (ArgumentValue a)) \<in> set (ClonedEntryBBInsts st)
         \<or> (hasOwnership NewF \<and> ArgOwnershipKind a = Unowned)"
  using assms unfolding cloneArgument_def
  by (auto simp: Let_def split: cloneArgument_splits)

lemma cloneArgument_boxed_registered:
  assumes "cloneArgument H NewF A2G E ad st = Inr st'"
    and "InitExistentialRefInst T C (CopyValueOperation (ArgumentValue a)) c
           \<in> set (CleanupValues st')"
  shows "InitExistentialRefInst T C (CopyValueOperation (ArgumentValue a)) c
           \<in> set (CleanupValues st)
         \<or> (hasOwnership NewF \<and> ArgOwnershipKind a = Unowned)"
  using assms unfolding cloneArgument_def
  by (auto simp: Let_def split: cloneArgument_splits)

text \<open>The result of one iteration for an opaque and for a class existential.\<close>

lemma cloneArgument_opaque:
  assumes "cloneArgument H NewF A2G E ad st = Inr st'"
    and "A2G (Index ad) = Some gp"
    and "getPreferredExistentialRepresentation H (ArgType (Arg ad)) = Opaque"
  shows "\<exists>NewArg.
           ClonedEntryBBArgs st' = ClonedEntryBBArgs st @ [NewArg] \<and>
           entryArgs st' = entryArgs st @ [AllocStackInst (Index ad) (ArgType (Arg ad))] \<and>
           AllocStackInsts st' = AllocStackInsts st @ [AllocStackInst (Index ad) (ArgType (Arg ad))] \<and>
           CleanupValues st' = CleanupValues st @
             (if isConsumed (lookupOrDefault E (Index ad)) then []
              else [AllocStackInst (Index ad) (ArgType (Arg ad))]) \<and>
           CopyAddrInst (ArgumentValue NewArg)
             (InitExistentialAddrInst (AllocStackInst (Index ad) (ArgType (Arg ad)))
                (ASTType (ArgType NewArg)) (ArgType NewArg)
                (collectExistentialConformances (ASTType (ArgType NewArg))
                   (ASTType (getObjectType (ArgType (Arg ad))))))
             (if isConsumed (lookupOrDefault E (Index ad)) then IsTake else IsNotTake)
             IsInitialization \<in> set (ClonedEntryBBInsts st')"
  using assms unfolding cloneArgument_def
  by (auto simp: Let_def split: cloneArgument_splits)

lemma cloneArgument_class:
  assumes "cloneArgument H NewF A2G E ad st = Inr st'"
    and "A2G (Index ad) = Some gp"
    and "getPreferredExistentialRepresentation H (ArgType (Arg ad)) = Class"
    and "hasOwnership NewF \<and> ArgOwnershipKind (last (ClonedEntryBBArgs st')) = Unowned"
  shows "\<exists>NewArg.
           ClonedEntryBBArgs st' = ClonedEntryBBArgs st @ [NewArg] \<and>
           ValueInst (CopyValueOperation (ArgumentValue NewArg)) \<in> set (ClonedEntryBBInsts st') \<and>
           ValueInst (InitExistentialRefInst (getObjectType (ArgType (Arg ad)))
              (ASTType (ArgType NewArg)) (CopyValueOperation (ArgumentValue NewArg))
              (collectExistentialConformances (ASTType (ArgType NewArg))
                 (ASTType (getObjectType (ArgType (Arg ad))))))
             \<in> set (ClonedEntryBBInsts st') \<and>
           InitExistentialRefInst (getObjectType (ArgType (Arg ad)))
              (ASTType (ArgType NewArg)) (CopyValueOperation (ArgumentValue NewArg))
              (collectExistentialConformances (ASTType (ArgType NewArg))
                 (ASTType (getObjectType (ArgType (Arg ad)))))
             \<in> set (CleanupValues st')"
  using assms unfolding cloneArgument_def
  by (auto simp: Let_def split: cloneArgument_splits)

text \<open>From one iteration to the loop.\<close>

lemma cloneArgumentsLoop_Cons:
  assumes "cloneArgumentsLoop H NewF A2G E (ad # ADL) st = Inr st'"
  obtains s where "cloneArgument H NewF A2G E ad st = Inr s"
    and "cloneArgumentsLoop H NewF A2G E ADL s = Inr st'"
  using assms by (auto split: sum.splits)

lemma cloneArgumentsLoop_invariant:
  assumes "cloneArgumentsLoop H NewF A2G E ADL st = Inr st'"
    and "\<And>ad s s'. cloneArgument H NewF A2G E ad s = Inr s' \<Longrightarrow> I s \<Longrightarrow> I s'"
    and "I st"
  shows "I st'"
  using assms(1,3)
proof (induction ADL arbitrary: st)
  case Nil
  then show ?case by simp
next
  case (Cons ad ADL)
  from Cons.prems(1) obtain s where s: "cloneArgument H NewF A2G E ad st = Inr s"
    and rest: "cloneArgumentsLoop H NewF A2G E ADL s = Inr st'"
    by (rule cloneArgumentsLoop_Cons)
  from assms(2)[OF s Cons.prems(2)] have "I s" .
  with rest show ?case by (rule Cons.IH)
qed

lemma cloneArgumentsLoop_origin:
  assumes "cloneArgumentsLoop H NewF A2G E ADL st = Inr st'"
    and "\<And>ad s s'. cloneArgument H NewF A2G E ad s = Inr s' \<Longrightarrow> R s' \<Longrightarrow> R s \<or> Q"
    and "R st'"
  shows "R st \<or> Q"
  using assms(1)
proof (induction ADL arbitrary: st)
  case Nil
  with assms(3) show ?case by simp
next
  case (Cons ad ADL)
  from Cons.prems obtain s where s: "cloneArgument H NewF A2G E ad st = Inr s"
    and rest: "cloneArgumentsLoop H NewF A2G E ADL s = Inr st'"
    by (rule cloneArgumentsLoop_Cons)
  from Cons.IH[OF rest] assms(2)[OF s] show ?case by blast
qed

lemma cloneArgumentsLoop_extends:
  assumes "cloneArgumentsLoop H NewF A2G E ADL st = Inr st'"
  shows "extends st st'"
  using assms
proof (induction ADL arbitrary: st)
  case Nil
  then show ?case by (simp add: extends_refl)
next
  case (Cons ad ADL)
  from Cons.prems obtain s where s: "cloneArgument H NewF A2G E ad st = Inr s"
    and rest: "cloneArgumentsLoop H NewF A2G E ADL s = Inr st'"
    by (rule cloneArgumentsLoop_Cons)
  from cloneArgument_extends[OF s] Cons.IH[OF rest] show ?case
    by (rule extends_trans)
qed

text \<open>The iteration for the \<open>k\<close>-th descriptor starts with \<open>k\<close> arguments made.\<close>

lemma cloneArgumentsLoop_nth:
  "cloneArgumentsLoop H NewF A2G E ADL st = Inr st' \<Longrightarrow> k < length ADL \<Longrightarrow>
   \<exists>s1 s2. cloneArgument H NewF A2G E (ADL ! k) s1 = Inr s2 \<and>
           extends st s1 \<and> extends s2 st' \<and>
           length (entryArgs s1) = length (entryArgs st) + k \<and>
           length (ClonedEntryBBArgs s1) = length (ClonedEntryBBArgs st) + k"
proof (induction ADL arbitrary: st k)
  case Nil
  then show ?case by simp
next
  case (Cons ad ADL)
  from Cons.prems(1) obtain s where s: "cloneArgument H NewF A2G E ad st = Inr s"
    and rest: "cloneArgumentsLoop H NewF A2G E ADL s = Inr st'"
    by (rule cloneArgumentsLoop_Cons)
  show ?case
  proof (cases k)
    case 0
    have "extends s st'" using rest by (rule cloneArgumentsLoop_extends)
    with s 0 show ?thesis
      by (intro exI[of _ st] exI[of _ s]) (simp add: extends_refl)
  next
    case (Suc j)
    with Cons.prems have "j < length ADL" by simp
    from Cons.IH[OF rest this] obtain s1 s2 where
      step: "cloneArgument H NewF A2G E (ADL ! j) s1 = Inr s2"
      and e1: "extends s s1" and e2: "extends s2 st'"
      and l1: "length (entryArgs s1) = length (entryArgs s) + j"
      and l2: "length (ClonedEntryBBArgs s1) = length (ClonedEntryBBArgs s) + j"
      by blast
    have "extends st s1" using cloneArgument_extends[OF s] e1 by (rule extends_trans)
    with step e2 l1 l2 cloneArgument_lengths[OF s] Suc show ?thesis
      by (intro exI[of _ s1] exI[of _ s2]) simp
  qed
qed

lemma cloneArguments_nth:
  assumes "cloneArguments H NewF A2G E ADL = Inr st" and "k < length ADL"
  obtains s1 s2 where "cloneArgument H NewF A2G E (ADL ! k) s1 = Inr s2"
    and "extends s2 st"
    and "length (entryArgs s1) = k" and "length (ClonedEntryBBArgs s1) = k"
proof -
  from assms have "cloneArgumentsLoop H NewF A2G E ADL initialClonerState = Inr st"
    by (simp add: cloneArguments_def)
  from cloneArgumentsLoop_nth[OF this assms(2)] obtain s1 s2 where
    "cloneArgument H NewF A2G E (ADL ! k) s1 = Inr s2" "extends s2 st"
    "length (entryArgs s1) = length (entryArgs initialClonerState) + k"
    "length (ClonedEntryBBArgs s1) = length (ClonedEntryBBArgs initialClonerState) + k"
    by blast
  then show thesis
    by (intro that[of s1 s2]) (simp_all add: initialClonerState_def)
qed

lemma cloneArguments_shape:
  assumes "cloneArguments H NewF A2G E ADL = Inr st"
  shows "\<forall>v\<in>set (CleanupValues st). registeredShape v"
proof (rule cloneArgumentsLoop_invariant
         [where I = "\<lambda>s. \<forall>v\<in>set (CleanupValues s). registeredShape v"])
  show "cloneArgumentsLoop H NewF A2G E ADL initialClonerState = Inr st"
    using assms by (simp add: cloneArguments_def)
  show "\<forall>v\<in>set (CleanupValues initialClonerState). registeredShape v"
    by (simp add: initialClonerState_def)
qed (rule cloneArgument_shape)

lemma registeredShape_not_guaranteed:
  "registeredShape v \<Longrightarrow> getOwnershipKind v \<noteq> Guaranteed"
  by (induction v rule: registeredShape.induct) simp_all

text \<open>
  C10. Every value in the cleanup list after the prologue is a stack slot or an
  existential reference boxed from a copy; neither has ownership kind Guaranteed, so
  the assertion in the exit handling does not fail.
\<close>

theorem cleanup_values_not_guaranteed:
  "(\<forall>st. cloneArguments H NewF A2G E ADL = Inr st \<longrightarrow>
      (\<forall>v\<in>set (CleanupValues st). registeredShape v \<and> getOwnershipKind v \<noteq> Guaranteed))
   \<and> cloneAndPopulateFunction H OrigF NewF A2G E ADL \<noteq> Inl CleanupValueIsGuaranteed"
proof (intro conjI allI impI)
  fix st assume st: "cloneArguments H NewF A2G E ADL = Inr st"
  from cloneArguments_shape[OF st]
  show "\<forall>v\<in>set (CleanupValues st). registeredShape v \<and> getOwnershipKind v \<noteq> Guaranteed"
    by (blast dest: registeredShape_not_guaranteed)
next
  show "cloneAndPopulateFunction H OrigF NewF A2G E ADL \<noteq> Inl CleanupValueIsGuaranteed"
  proof
    assume bad: "cloneAndPopulateFunction H OrigF NewF A2G E ADL = Inl CleanupValueIsGuaranteed"
    show False
    proof (cases "cloneArguments H NewF A2G E ADL")
      case (Inl e)
      then have "cloneArgumentsLoop H NewF A2G E ADL initialClonerState = Inl e"
        by (simp add: cloneArguments_def)
      moreover have "\<And>st. cloneArgumentsLoop H NewF A2G E ADL st \<noteq> Inl CleanupValueIsGuaranteed"
      proof (induction ADL)
        case Nil
        show ?case by simp
      next
        case (Cons ad ADL)
        have "cloneArgument H NewF A2G E ad st \<noteq> Inl CleanupValueIsGuaranteed" for st
          unfolding cloneArgument_def
          by (auto simp: Let_def split: cloneArgument_splits)
        with Cons show ?case by (auto split: sum.splits)
      qed
      ultimately show False using bad Inl
        by (simp add: cloneAndPopulateFunction_def)
    next
      case (Inr st)
      with bad obtain v where "v \<in> set (CleanupValues st)" "getOwnershipKind v = Guaranteed"
        by (auto simp: cloneAndPopulateFunction_def split: sum.splits
                 dest: cleanupExitingBlocks_Inl)
      with cloneArguments_shape[OF Inr] show False
        by (blast dest: registeredShape_not_guaranteed)
    qed
  qed
qed

theorem cleanup_values_not_guaranteed_witness:
  "cloneArguments exampleHost (newFunctionC True) genericMapA descC argsC = Inr (stateC True) \<and>
   CleanupValues (stateC True) = [boxedRef copiedC] \<and>
   registeredShape (boxedRef copiedC) \<and>
   getOwnershipKind (boxedRef copiedC) \<noteq> Guaranteed \<and>
   cloneAndPopulateFunction exampleHost (funcC True) (newFunctionC True) genericMapA descC argsC
     \<noteq> Inl CleanupValueIsGuaranteed"
proof -
  have st: "cloneArguments exampleHost (newFunctionC True) genericMapA descC argsC = Inr (stateC True)"
    by (rule cloneArguments_C)
  have cv: "CleanupValues (stateC True) = [boxedRef copiedC]"
    by (simp add: stateC_def)
  from cleanup_values_not_guaranteed
         [of exampleHost "newFunctionC True" genericMapA descC argsC "funcC True"] st cv
  show ?thesis by simp
qed

text \<open>The opaque case, for a prologue that was built.\<close>

lemma cloneArguments_opaque_argument:
  assumes "cloneArguments H NewF A2G E ADL = Inr st"
    and "k < length ADL"
    and "A2G (Index (ADL ! k)) = Some gp"
    and "getPreferredExistentialRepresentation H (ArgType (Arg (ADL ! k))) = Opaque"
  shows "let ArgDesc = ADL ! k;
             ASI = AllocStackInst (Index ArgDesc) (ArgType (Arg ArgDesc));
             NewArg = ClonedEntryBBArgs st ! k;
             EAI = InitExistentialAddrInst ASI (ASTType (ArgType NewArg)) (ArgType NewArg)
                     (collectExistentialConformances (ASTType (ArgType NewArg))
                        (ASTType (getObjectType (ArgType (Arg ArgDesc)))));
             origConsumed = isConsumed (lookupOrDefault E (Index ArgDesc))
         in entryArgs st ! k = ASI \<and>
            ASI \<in> set (AllocStackInsts st) \<and>
            CopyAddrInst (ArgumentValue NewArg) EAI
              (if origConsumed then IsTake else IsNotTake) IsInitialization
              \<in> set (ClonedEntryBBInsts st) \<and>
            (\<forall>src A S c t ini.
               CopyAddrInst src (InitExistentialAddrInst ASI A S c) t ini
                 \<in> set (ClonedEntryBBInsts st) \<longrightarrow> (t = IsTake \<longleftrightarrow> origConsumed)) \<and>
            (ASI \<in> set (CleanupValues st) \<longleftrightarrow> \<not> origConsumed)"
proof -
  define ad where "ad = ADL ! k"
  define ASI where "ASI = AllocStackInst (Index ad) (ArgType (Arg ad))"
  define oc where "oc = isConsumed (lookupOrDefault E (Index ad))"
  have loop: "cloneArgumentsLoop H NewF A2G E ADL initialClonerState = Inr st"
    using assms(1) by (simp add: cloneArguments_def)
  from cloneArguments_nth[OF assms(1,2)] obtain s1 s2 where
    step: "cloneArgument H NewF A2G E ad s1 = Inr s2" and ext: "extends s2 st"
    and l1: "length (entryArgs s1) = k" and l2: "length (ClonedEntryBBArgs s1) = k"
    unfolding ad_def by blast
  from cloneArgument_opaque[OF step] assms(3,4) obtain NewArg where
    a: "ClonedEntryBBArgs s2 = ClonedEntryBBArgs s1 @ [NewArg]"
    and e: "entryArgs s2 = entryArgs s1 @ [ASI]"
    and s: "AllocStackInsts s2 = AllocStackInsts s1 @ [ASI]"
    and c: "CleanupValues s2 = CleanupValues s1 @ (if oc then [] else [ASI])"
    and i: "CopyAddrInst (ArgumentValue NewArg)
             (InitExistentialAddrInst ASI (ASTType (ArgType NewArg)) (ArgType NewArg)
                (collectExistentialConformances (ASTType (ArgType NewArg))
                   (ASTType (getObjectType (ArgType (Arg ad))))))
             (if oc then IsTake else IsNotTake) IsInitialization \<in> set (ClonedEntryBBInsts s2)"
    unfolding ad_def ASI_def oc_def by blast
  from ext a l2 have arg: "ClonedEntryBBArgs st ! k = NewArg"
    by (auto simp: extends_def nth_append)
  from ext e l1 have entry: "entryArgs st ! k = ASI"
    by (auto simp: extends_def nth_append)
  from ext s have slot: "ASI \<in> set (AllocStackInsts st)"
    by (auto simp: extends_def)
  from ext i have copy: "CopyAddrInst (ArgumentValue NewArg)
             (InitExistentialAddrInst ASI (ASTType (ArgType NewArg)) (ArgType NewArg)
                (collectExistentialConformances (ASTType (ArgType NewArg))
                   (ASTType (getObjectType (ArgType (Arg ad))))))
             (if oc then IsTake else IsNotTake) IsInitialization \<in> set (ClonedEntryBBInsts st)"
    by (auto simp: extends_def)
  have only: "t = IsTake \<longleftrightarrow> oc"
    if "CopyAddrInst src (InitExistentialAddrInst ASI A S c) t ini \<in> set (ClonedEntryBBInsts st)"
    for src A S c t ini
  proof -
    have "CopyAddrInst src (InitExistentialAddrInst ASI A S c) t ini
            \<in> set (ClonedEntryBBInsts initialClonerState)
          \<or> t = (if oc then IsTake else IsNotTake)"
      unfolding ASI_def oc_def
      by (rule cloneArgumentsLoop_origin[OF loop, where
            R = "\<lambda>s. CopyAddrInst src (InitExistentialAddrInst
                        (AllocStackInst (Index ad) (ArgType (Arg ad))) A S c) t ini
                      \<in> set (ClonedEntryBBInsts s)"])
         (use that in \<open>auto simp: ASI_def dest: cloneArgument_copy_addr\<close>)
    then show ?thesis by (auto simp: initialClonerState_def)
  qed
  have reg: "ASI \<in> set (CleanupValues st) \<longleftrightarrow> \<not> oc"
  proof
    assume m: "ASI \<in> set (CleanupValues st)"
    have "ASI \<in> set (CleanupValues initialClonerState) \<or> \<not> oc"
      unfolding ASI_def oc_def
      by (rule cloneArgumentsLoop_origin[OF loop, where
            R = "\<lambda>s. AllocStackInst (Index ad) (ArgType (Arg ad)) \<in> set (CleanupValues s)"])
         (use m in \<open>auto simp: ASI_def dest: cloneArgument_slot_registered\<close>)
    then show "\<not> oc" by (simp add: initialClonerState_def)
  next
    assume "\<not> oc"
    with ext c show "ASI \<in> set (CleanupValues st)" by (auto simp: extends_def)
  qed
  from arg entry slot copy only reg show ?thesis
    unfolding Let_def ad_def[symmetric] ASI_def[symmetric] oc_def[symmetric] by blast
qed

text \<open>When the prologue is built, and what it registers.\<close>

lemma cloneArgument_succeeds_iff:
  "(\<exists>s. cloneArgument H NewF A2G E ad st = Inr s) \<longleftrightarrow> argumentOk H NewF A2G ad"
  unfolding cloneArgument_def argumentOk_def
  by (auto simp: Let_def getCategoryType_def split: cloneArgument_splits)

lemma cloneArgumentsLoop_succeeds_iff:
  "(\<exists>s. cloneArgumentsLoop H NewF A2G E ADL st = Inr s)
     \<longleftrightarrow> (\<forall>ad\<in>set ADL. argumentOk H NewF A2G ad)"
proof (induction ADL arbitrary: st)
  case Nil
  show ?case by simp
next
  case (Cons ad ADL)
  show ?case
  proof (cases "cloneArgument H NewF A2G E ad st")
    case (Inl e)
    then have "\<not> argumentOk H NewF A2G ad"
      using cloneArgument_succeeds_iff[of H NewF A2G E ad st] by simp
    with Inl show ?thesis by simp
  next
    case (Inr s)
    then have "argumentOk H NewF A2G ad"
      using cloneArgument_succeeds_iff[of H NewF A2G E ad st] by blast
    with Inr Cons.IH[of s] show ?thesis by simp
  qed
qed

lemma cloneArguments_succeeds_iff:
  "(\<exists>st. cloneArguments H NewF A2G E ADL = Inr st)
     \<longleftrightarrow> (\<forall>ad\<in>set ADL. argumentOk H NewF A2G ad)"
  by (simp add: cloneArguments_def cloneArgumentsLoop_succeeds_iff)

lemma cloneArgument_registers:
  assumes "cloneArgument H NewF A2G E ad st = Inr s"
  shows "\<exists>NewArg. ClonedEntryBBArgs s = ClonedEntryBBArgs st @ [NewArg] \<and>
           CleanupValues s = CleanupValues st @ registeredForCleanup H NewF A2G E ad NewArg"
  using assms unfolding cloneArgument_def registeredForCleanup_def
  by (auto simp: Let_def split: cloneArgument_splits)

lemma cloneArgumentsLoop_registers:
  "cloneArgumentsLoop H NewF A2G E ADL st = Inr st' \<Longrightarrow>
   CleanupValues st' =
     CleanupValues st @
     concat (map (\<lambda>j. registeredForCleanup H NewF A2G E (ADL ! j)
                         (ClonedEntryBBArgs st' ! (length (ClonedEntryBBArgs st) + j)))
                 [0..<length ADL])"
proof (induction ADL arbitrary: st)
  case Nil
  then show ?case by simp
next
  case (Cons ad ADL)
  from Cons.prems obtain s where s: "cloneArgument H NewF A2G E ad st = Inr s"
    and rest: "cloneArgumentsLoop H NewF A2G E ADL s = Inr st'"
    by (rule cloneArgumentsLoop_Cons)
  from cloneArgument_registers[OF s] obtain NewArg where
    a: "ClonedEntryBBArgs s = ClonedEntryBBArgs st @ [NewArg]"
    and c: "CleanupValues s = CleanupValues st @ registeredForCleanup H NewF A2G E ad NewArg"
    by blast
  from cloneArgumentsLoop_extends[OF rest] a
  have first: "ClonedEntryBBArgs st' ! length (ClonedEntryBBArgs st) = NewArg"
    by (auto simp: extends_def nth_append)
  have upt: "[0..<length (ad # ADL)] = 0 # map Suc [0..<length ADL]"
    by (simp add: upt_conv_Cons map_Suc_upt del: upt_Suc)
  from Cons.IH[OF rest] a c first show ?case
    unfolding upt by (simp add: comp_def)
qed

lemma cloneArguments_registers:
  assumes "cloneArguments H NewF A2G E ADL = Inr st"
  shows "CleanupValues st =
           concat (map (\<lambda>j. registeredForCleanup H NewF A2G E (ADL ! j) (ClonedEntryBBArgs st ! j))
                       [0..<length ADL])"
proof -
  from assms have "cloneArgumentsLoop H NewF A2G E ADL initialClonerState = Inr st"
    by (simp add: cloneArguments_def)
  from cloneArgumentsLoop_registers[OF this] show ?thesis
    by (simp add: initialClonerState_def)
qed

lemma registered_box:
  assumes "InitExistentialRefInst T C v c \<in> set (registeredForCleanup H NewF A2G E ad a)"
  shows "v = CopyValueOperation (ArgumentValue a) \<and> hasOwnership NewF
           \<and> ArgOwnershipKind a = Unowned"
  using assms unfolding registeredForCleanup_def
  by (auto split: cloneArgument_splits)

text \<open>
  C6. The prologue is built exactly if every descriptor passes the checks of the loop,
  whether or not its argument is consumed. For the \<open>k\<close>-th descriptor, transformed
  and with opaque representation, the prologue then has these properties: the value
  passed to the cloned body at position \<open>k\<close> is the stack slot allocated for it; the
  prologue copies the generic argument into the slot's existential with \<^verbatim>\<open>[take]\<close> if
  the descriptor says consumed and without otherwise, and every copy into that slot
  has this flag; the slot is in the cleanup list exactly if the argument is not
  consumed.
\<close>

theorem opaque_argument_take_iff_consumed:
  assumes "k < length ADL"
    and "A2G (Index (ADL ! k)) = Some gp"
    and "getPreferredExistentialRepresentation H (ArgType (Arg (ADL ! k))) = Opaque"
  shows "((\<exists>st. cloneArguments H NewF A2G E ADL = Inr st)
            \<longleftrightarrow> (\<forall>ArgDesc\<in>set ADL. argumentOk H NewF A2G ArgDesc)) \<and>
         (\<forall>st. cloneArguments H NewF A2G E ADL = Inr st \<longrightarrow>
            (let ArgDesc = ADL ! k;
                 ASI = AllocStackInst (Index ArgDesc) (ArgType (Arg ArgDesc));
                 NewArg = ClonedEntryBBArgs st ! k;
                 EAI = InitExistentialAddrInst ASI (ASTType (ArgType NewArg)) (ArgType NewArg)
                         (collectExistentialConformances (ASTType (ArgType NewArg))
                            (ASTType (getObjectType (ArgType (Arg ArgDesc)))));
                 origConsumed = isConsumed (lookupOrDefault E (Index ArgDesc))
             in entryArgs st ! k = ASI \<and>
                ASI \<in> set (AllocStackInsts st) \<and>
                CopyAddrInst (ArgumentValue NewArg) EAI
                  (if origConsumed then IsTake else IsNotTake) IsInitialization
                  \<in> set (ClonedEntryBBInsts st) \<and>
                (\<forall>src A S c t ini.
                   CopyAddrInst src (InitExistentialAddrInst ASI A S c) t ini
                     \<in> set (ClonedEntryBBInsts st) \<longrightarrow> (t = IsTake \<longleftrightarrow> origConsumed)) \<and>
                (ASI \<in> set (CleanupValues st) \<longleftrightarrow> \<not> origConsumed) \<and>
                registeredForCleanup H NewF A2G E ArgDesc NewArg
                  = (if origConsumed then [] else [ASI]) \<and>
                CleanupValues st =
                  concat (map (\<lambda>j. registeredForCleanup H NewF A2G E (ADL ! j)
                                      (ClonedEntryBBArgs st ! j))
                              [0..<length ADL])))"
proof (intro conjI allI impI)
  show "(\<exists>st. cloneArguments H NewF A2G E ADL = Inr st)
          \<longleftrightarrow> (\<forall>ArgDesc\<in>set ADL. argumentOk H NewF A2G ArgDesc)"
    by (rule cloneArguments_succeeds_iff)
next
  fix st assume st: "cloneArguments H NewF A2G E ADL = Inr st"
  have reg: "registeredForCleanup H NewF A2G E (ADL ! k) (ClonedEntryBBArgs st ! k)
               = (if isConsumed (lookupOrDefault E (Index (ADL ! k))) then []
                  else [AllocStackInst (Index (ADL ! k)) (ArgType (Arg (ADL ! k)))])"
    using assms(2,3) by (simp add: registeredForCleanup_def)
  from cloneArguments_opaque_argument[OF st assms] reg cloneArguments_registers[OF st]
  show "let ArgDesc = ADL ! k;
            ASI = AllocStackInst (Index ArgDesc) (ArgType (Arg ArgDesc));
            NewArg = ClonedEntryBBArgs st ! k;
            EAI = InitExistentialAddrInst ASI (ASTType (ArgType NewArg)) (ArgType NewArg)
                    (collectExistentialConformances (ASTType (ArgType NewArg))
                       (ASTType (getObjectType (ArgType (Arg ArgDesc)))));
            origConsumed = isConsumed (lookupOrDefault E (Index ArgDesc))
        in entryArgs st ! k = ASI \<and>
           ASI \<in> set (AllocStackInsts st) \<and>
           CopyAddrInst (ArgumentValue NewArg) EAI
             (if origConsumed then IsTake else IsNotTake) IsInitialization
             \<in> set (ClonedEntryBBInsts st) \<and>
           (\<forall>src A S c t ini.
              CopyAddrInst src (InitExistentialAddrInst ASI A S c) t ini
                \<in> set (ClonedEntryBBInsts st) \<longrightarrow> (t = IsTake \<longleftrightarrow> origConsumed)) \<and>
           (ASI \<in> set (CleanupValues st) \<longleftrightarrow> \<not> origConsumed) \<and>
           registeredForCleanup H NewF A2G E ArgDesc NewArg
             = (if origConsumed then [] else [ASI]) \<and>
           CleanupValues st =
             concat (map (\<lambda>j. registeredForCleanup H NewF A2G E (ADL ! j)
                                 (ClonedEntryBBArgs st ! j))
                         [0..<length ADL])"
    unfolding Let_def by blast
qed

text \<open>The witness: a consumed argument is moved and not registered; a borrowed one is
  copied and registered.\<close>

theorem opaque_argument_take_iff_consumed_witness:
  "argumentOk exampleHost newFunctionD genericMapA (argsA ! 0) \<and>
   cloneArguments exampleHost newFunctionD genericMapA descD argsA = Inr stateD \<and>
   isConsumed (lookupOrDefault descD (Index (argsA ! 0))) \<and>
   entryArgs stateD ! 0 = slot 0 \<and>
   CopyAddrInst (ArgumentValue (ClonedEntryBBArgs stateD ! 0)) (boxedAddr 0 0)
     IsTake IsInitialization \<in> set (ClonedEntryBBInsts stateD) \<and>
   slot 0 \<notin> set (CleanupValues stateD) \<and>
   cloneArguments exampleHost newFunctionB genericMapB descB argsB = Inr stateB \<and>
   \<not> isConsumed (lookupOrDefault descB (Index (argsB ! 1))) \<and>
   entryArgs stateB ! 1 = slot 1 \<and>
   CopyAddrInst (ArgumentValue (ClonedEntryBBArgs stateB ! 1)) (boxedAddr 1 1)
     IsNotTake IsInitialization \<in> set (ClonedEntryBBInsts stateB) \<and>
   slot 1 \<in> set (CleanupValues stateB)"
proof -
  have d2: "(0::nat) < length argsA" by (simp add: argsA_def)
  have d3: "genericMapA (Index (argsA ! 0)) = Some (GenericTypeParam 0 0)"
    by (simp add: argsA_def genericMapA_def exampleArg_def)
  have d4: "getPreferredExistentialRepresentation exampleHost (ArgType (Arg (argsA ! 0))) = Opaque"
    by (simp add: example_defs)
  have d5: "isConsumed (lookupOrDefault descD (Index (argsA ! 0)))"
    by (simp add: example_defs lookupOrDefault_def)
  have ok: "argumentOk exampleHost newFunctionD genericMapA (argsA ! 0)"
    by (simp add: argumentOk_def example_defs)
  from opaque_argument_take_iff_consumed
         [where k = 0 and ADL = argsA and A2G = genericMapA and H = exampleHost
            and NewF = newFunctionD and E = descD, OF d2 d3 d4]
       cloneArguments_D d5
  have "entryArgs stateD ! 0 = AllocStackInst (Index (argsA ! 0)) (ArgType (Arg (argsA ! 0)))"
    and "AllocStackInst (Index (argsA ! 0)) (ArgType (Arg (argsA ! 0)))
           \<notin> set (CleanupValues stateD)"
    unfolding Let_def by blast+
  moreover
  have h2: "(1::nat) < length argsB" by (simp add: argsB_def)
  have h3: "genericMapB (Index (argsB ! 1)) = Some (GenericTypeParam 0 1)"
    by (simp add: argsB_def genericMapB_def exampleArg_def)
  have h4: "getPreferredExistentialRepresentation exampleHost (ArgType (Arg (argsB ! 1))) = Opaque"
    by (simp add: example_defs)
  have h5: "\<not> isConsumed (lookupOrDefault descB (Index (argsB ! 1)))"
    by (simp add: example_defs lookupOrDefault_def)
  from opaque_argument_take_iff_consumed
         [where k = 1 and ADL = argsB and A2G = genericMapB and H = exampleHost
            and NewF = newFunctionB and E = descB, OF h2 h3 h4]
       cloneArguments_B h5
  have "entryArgs stateB ! 1 = AllocStackInst (Index (argsB ! 1)) (ArgType (Arg (argsB ! 1)))"
    and "AllocStackInst (Index (argsB ! 1)) (ArgType (Arg (argsB ! 1)))
           \<in> set (CleanupValues stateB)"
    unfolding Let_def by blast+
  ultimately show ?thesis
    using ok d5 h5 by (simp add: cloneArguments_D cloneArguments_B) (simp add: example_defs)
qed

text \<open>The class case, for a prologue that was built.\<close>

lemma cloneArguments_class_argument:
  assumes "cloneArguments H NewF A2G E ADL = Inr st"
    and "k < length ADL"
    and "A2G (Index (ADL ! k)) = Some gp"
    and "getPreferredExistentialRepresentation H (ArgType (Arg (ADL ! k))) = Class"
  shows "let ArgDesc = ADL ! k;
             NewArg = ClonedEntryBBArgs st ! k;
             copied = CopyValueOperation (ArgumentValue NewArg);
             InitRef = InitExistentialRefInst (getObjectType (ArgType (Arg ArgDesc)))
                         (ASTType (ArgType NewArg)) copied
                         (collectExistentialConformances (ASTType (ArgType NewArg))
                            (ASTType (getObjectType (ArgType (Arg ArgDesc)))));
             isUnowned = (hasOwnership NewF \<and> ArgOwnershipKind NewArg = Unowned)
         in (ValueInst copied \<in> set (ClonedEntryBBInsts st) \<longleftrightarrow> isUnowned) \<and>
            (isUnowned \<longrightarrow> ValueInst InitRef \<in> set (ClonedEntryBBInsts st)) \<and>
            (InitRef \<in> set (CleanupValues st) \<longleftrightarrow> isUnowned) \<and>
            (\<forall>T C c. InitExistentialRefInst T C copied c \<in> set (CleanupValues st) \<longrightarrow> isUnowned)"
proof -
  define ad where "ad = ADL ! k"
  have loop: "cloneArgumentsLoop H NewF A2G E ADL initialClonerState = Inr st"
    using assms(1) by (simp add: cloneArguments_def)
  from cloneArguments_nth[OF assms(1,2)] obtain s1 s2 where
    step: "cloneArgument H NewF A2G E ad s1 = Inr s2" and ext: "extends s2 st"
    and l2: "length (ClonedEntryBBArgs s1) = k"
    unfolding ad_def by blast
  define NewArg where "NewArg = ClonedEntryBBArgs st ! k"
  define copied where "copied = CopyValueOperation (ArgumentValue NewArg)"
  define InitRef where "InitRef = InitExistentialRefInst (getObjectType (ArgType (Arg ad)))
                         (ASTType (ArgType NewArg)) copied
                         (collectExistentialConformances (ASTType (ArgType NewArg))
                            (ASTType (getObjectType (ArgType (Arg ad)))))"
  define isUnowned where "isUnowned = (hasOwnership NewF \<and> ArgOwnershipKind NewArg = Unowned)"
  from cloneArgument_lengths(2)[OF step] l2
  have len: "length (ClonedEntryBBArgs s2) = Suc k" by simp
  then have "ClonedEntryBBArgs s2 \<noteq> []" by auto
  with len have last: "last (ClonedEntryBBArgs s2) = ClonedEntryBBArgs s2 ! k"
    by (simp add: last_conv_nth)
  from ext cloneArgument_lengths(2)[OF step] l2
  have same: "ClonedEntryBBArgs s2 ! k = NewArg"
    by (auto simp: extends_def nth_append NewArg_def)
  have present: "ValueInst copied \<in> set (ClonedEntryBBInsts st) \<and>
                 ValueInst InitRef \<in> set (ClonedEntryBBInsts st) \<and>
                 InitRef \<in> set (CleanupValues st)" if isUnowned
  proof -
    from that last same
    have "hasOwnership NewF \<and> ArgOwnershipKind (last (ClonedEntryBBArgs s2)) = Unowned"
      by (simp add: isUnowned_def)
    from cloneArgument_class[OF step _ _ this] assms(3,4) obtain a where
      a: "ClonedEntryBBArgs s2 = ClonedEntryBBArgs s1 @ [a]"
      and c: "ValueInst (CopyValueOperation (ArgumentValue a)) \<in> set (ClonedEntryBBInsts s2)"
      and b: "ValueInst (InitExistentialRefInst (getObjectType (ArgType (Arg ad)))
              (ASTType (ArgType a)) (CopyValueOperation (ArgumentValue a))
              (collectExistentialConformances (ASTType (ArgType a))
                 (ASTType (getObjectType (ArgType (Arg ad))))))
             \<in> set (ClonedEntryBBInsts s2)"
      and r: "InitExistentialRefInst (getObjectType (ArgType (Arg ad)))
              (ASTType (ArgType a)) (CopyValueOperation (ArgumentValue a))
              (collectExistentialConformances (ASTType (ArgType a))
                 (ASTType (getObjectType (ArgType (Arg ad)))))
             \<in> set (CleanupValues s2)"
      unfolding ad_def by blast
    from a l2 same have "a = NewArg" by (simp add: nth_append)
    with c b r ext show ?thesis
      by (auto simp: extends_def copied_def InitRef_def)
  qed
  have copy_only: isUnowned if "ValueInst copied \<in> set (ClonedEntryBBInsts st)"
  proof -
    have "ValueInst copied \<in> set (ClonedEntryBBInsts initialClonerState) \<or> isUnowned"
      unfolding isUnowned_def copied_def
      by (rule cloneArgumentsLoop_origin[OF loop, where
            R = "\<lambda>s. ValueInst (CopyValueOperation (ArgumentValue NewArg))
                      \<in> set (ClonedEntryBBInsts s)"])
         (use that in \<open>auto simp: copied_def dest: cloneArgument_copy_value\<close>)
    then show ?thesis by (simp add: initialClonerState_def)
  qed
  have reg_only: isUnowned
    if "InitExistentialRefInst T C copied c \<in> set (CleanupValues st)" for T C c
  proof -
    have "InitExistentialRefInst T C copied c \<in> set (CleanupValues initialClonerState)
          \<or> isUnowned"
      unfolding isUnowned_def copied_def
      by (rule cloneArgumentsLoop_origin[OF loop, where
            R = "\<lambda>s. InitExistentialRefInst T C (CopyValueOperation (ArgumentValue NewArg)) c
                      \<in> set (CleanupValues s)"])
         (use that in \<open>auto simp: copied_def dest: cloneArgument_boxed_registered\<close>)
    then show ?thesis by (simp add: initialClonerState_def)
  qed
  from present copy_only reg_only
  have "(ValueInst copied \<in> set (ClonedEntryBBInsts st) \<longleftrightarrow> isUnowned) \<and>
        (isUnowned \<longrightarrow> ValueInst InitRef \<in> set (ClonedEntryBBInsts st)) \<and>
        (InitRef \<in> set (CleanupValues st) \<longleftrightarrow> isUnowned) \<and>
        (\<forall>T C c. InitExistentialRefInst T C copied c \<in> set (CleanupValues st) \<longrightarrow> isUnowned)"
    unfolding InitRef_def by blast
  then show ?thesis
    unfolding Let_def ad_def[symmetric] NewArg_def[symmetric] copied_def[symmetric]
      InitRef_def[symmetric] isUnowned_def[symmetric] .
qed

text \<open>
  C8, as the code has it. The prologue is built exactly if every descriptor passes the
  checks of the loop, whatever the ownership kinds. For the \<open>k\<close>-th descriptor,
  transformed and with class representation, the prologue then has these properties: it
  copies the generic argument exactly if the generic function has ownership and the
  argument's ownership kind is Unowned; in that case the copy is what gets boxed, and
  the boxed reference is what this descriptor registers for cleanup; otherwise this
  descriptor registers nothing. The cleanup list is made of what the descriptors
  register, in their order, and every boxed reference in it is boxed from the copy of
  an Unowned argument in a function with ownership.
\<close>

theorem class_argument_copy_iff_unowned:
  assumes "k < length ADL"
    and "A2G (Index (ADL ! k)) = Some gp"
    and "getPreferredExistentialRepresentation H (ArgType (Arg (ADL ! k))) = Class"
  shows "((\<exists>st. cloneArguments H NewF A2G E ADL = Inr st)
            \<longleftrightarrow> (\<forall>ArgDesc\<in>set ADL. argumentOk H NewF A2G ArgDesc)) \<and>
         (\<forall>st. cloneArguments H NewF A2G E ADL = Inr st \<longrightarrow>
            (let ArgDesc = ADL ! k;
                 NewArg = ClonedEntryBBArgs st ! k;
                 copied = CopyValueOperation (ArgumentValue NewArg);
                 InitRef = InitExistentialRefInst (getObjectType (ArgType (Arg ArgDesc)))
                             (ASTType (ArgType NewArg)) copied
                             (collectExistentialConformances (ASTType (ArgType NewArg))
                                (ASTType (getObjectType (ArgType (Arg ArgDesc)))));
                 isUnowned = (hasOwnership NewF \<and> ArgOwnershipKind NewArg = Unowned)
             in (ValueInst copied \<in> set (ClonedEntryBBInsts st) \<longleftrightarrow> isUnowned) \<and>
                (isUnowned \<longrightarrow> ValueInst InitRef \<in> set (ClonedEntryBBInsts st)) \<and>
                (InitRef \<in> set (CleanupValues st) \<longleftrightarrow> isUnowned) \<and>
                (\<forall>T C c. InitExistentialRefInst T C copied c \<in> set (CleanupValues st)
                           \<longrightarrow> isUnowned) \<and>
                registeredForCleanup H NewF A2G E ArgDesc NewArg
                  = (if isUnowned then [InitRef] else []) \<and>
                CleanupValues st =
                  concat (map (\<lambda>j. registeredForCleanup H NewF A2G E (ADL ! j)
                                      (ClonedEntryBBArgs st ! j))
                              [0..<length ADL]) \<and>
                (\<forall>T C v c. InitExistentialRefInst T C v c \<in> set (CleanupValues st) \<longrightarrow>
                   (\<exists>a. v = CopyValueOperation (ArgumentValue a) \<and> hasOwnership NewF \<and>
                        ArgOwnershipKind a = Unowned))))"
proof (intro conjI allI impI)
  show "(\<exists>st. cloneArguments H NewF A2G E ADL = Inr st)
          \<longleftrightarrow> (\<forall>ArgDesc\<in>set ADL. argumentOk H NewF A2G ArgDesc)"
    by (rule cloneArguments_succeeds_iff)
next
  fix st assume st: "cloneArguments H NewF A2G E ADL = Inr st"
  note all = cloneArguments_registers[OF st]
  have reg: "registeredForCleanup H NewF A2G E (ADL ! k) (ClonedEntryBBArgs st ! k)
               = (if hasOwnership NewF \<and> ArgOwnershipKind (ClonedEntryBBArgs st ! k) = Unowned
                  then [InitExistentialRefInst (getObjectType (ArgType (Arg (ADL ! k))))
                          (ASTType (ArgType (ClonedEntryBBArgs st ! k)))
                          (CopyValueOperation (ArgumentValue (ClonedEntryBBArgs st ! k)))
                          (collectExistentialConformances
                             (ASTType (ArgType (ClonedEntryBBArgs st ! k)))
                             (ASTType (getObjectType (ArgType (Arg (ADL ! k))))))]
                  else [])"
    using assms(2,3) by (simp add: registeredForCleanup_def)
  have boxes: "\<exists>a. v = CopyValueOperation (ArgumentValue a) \<and> hasOwnership NewF \<and>
                    ArgOwnershipKind a = Unowned"
    if "InitExistentialRefInst T C v c \<in> set (CleanupValues st)" for T C v c
  proof -
    from that all obtain j where
      "InitExistentialRefInst T C v c
         \<in> set (registeredForCleanup H NewF A2G E (ADL ! j) (ClonedEntryBBArgs st ! j))"
      by auto
    from registered_box[OF this] show ?thesis by blast
  qed
  from cloneArguments_class_argument[OF st assms] reg all boxes
  show "let ArgDesc = ADL ! k;
            NewArg = ClonedEntryBBArgs st ! k;
            copied = CopyValueOperation (ArgumentValue NewArg);
            InitRef = InitExistentialRefInst (getObjectType (ArgType (Arg ArgDesc)))
                        (ASTType (ArgType NewArg)) copied
                        (collectExistentialConformances (ASTType (ArgType NewArg))
                           (ASTType (getObjectType (ArgType (Arg ArgDesc)))));
            isUnowned = (hasOwnership NewF \<and> ArgOwnershipKind NewArg = Unowned)
        in (ValueInst copied \<in> set (ClonedEntryBBInsts st) \<longleftrightarrow> isUnowned) \<and>
           (isUnowned \<longrightarrow> ValueInst InitRef \<in> set (ClonedEntryBBInsts st)) \<and>
           (InitRef \<in> set (CleanupValues st) \<longleftrightarrow> isUnowned) \<and>
           (\<forall>T C c. InitExistentialRefInst T C copied c \<in> set (CleanupValues st)
                      \<longrightarrow> isUnowned) \<and>
           registeredForCleanup H NewF A2G E ArgDesc NewArg
             = (if isUnowned then [InitRef] else []) \<and>
           CleanupValues st =
             concat (map (\<lambda>j. registeredForCleanup H NewF A2G E (ADL ! j)
                                 (ClonedEntryBBArgs st ! j))
                         [0..<length ADL]) \<and>
           (\<forall>T C v c. InitExistentialRefInst T C v c \<in> set (CleanupValues st) \<longrightarrow>
              (\<exists>a. v = CopyValueOperation (ArgumentValue a) \<and> hasOwnership NewF \<and>
                   ArgOwnershipKind a = Unowned))"
    unfolding Let_def by blast
qed

text \<open>The witness: an Unowned argument is copied and its box registered; an Owned one is
  boxed as it is and nothing is registered.\<close>

theorem class_argument_copy_iff_unowned_witness:
  "argumentOk exampleHost (newFunctionC True) genericMapA (argsC ! 0) \<and>
   cloneArguments exampleHost (newFunctionC True) genericMapA descC argsC = Inr (stateC True) \<and>
   hasOwnership (newFunctionC True) \<and>
   ArgOwnershipKind (ClonedEntryBBArgs (stateC True) ! 0) = Unowned \<and>
   ValueInst (CopyValueOperation (ArgumentValue (ClonedEntryBBArgs (stateC True) ! 0)))
     \<in> set (ClonedEntryBBInsts (stateC True)) \<and>
   CleanupValues (stateC True) = [boxedRef copiedC] \<and>
   cloneArguments exampleHost newFunctionE genericMapA descE argsE = Inr stateE \<and>
   hasOwnership newFunctionE \<and>
   ArgOwnershipKind (ClonedEntryBBArgs stateE ! 0) = Owned \<and>
   ValueInst (CopyValueOperation (ArgumentValue (ClonedEntryBBArgs stateE ! 0)))
     \<notin> set (ClonedEntryBBInsts stateE) \<and>
   CleanupValues stateE = []"
proof -
  have c2: "(0::nat) < length argsC" by (simp add: argsC_def)
  have c3: "genericMapA (Index (argsC ! 0)) = Some (GenericTypeParam 0 0)"
    by (simp add: argsC_def genericMapA_def exampleArg_def)
  have c4: "getPreferredExistentialRepresentation exampleHost (ArgType (Arg (argsC ! 0))) = Class"
    by (simp add: example_defs)
  have c5: "hasOwnership (newFunctionC True) \<and>
            ArgOwnershipKind (ClonedEntryBBArgs (stateC True) ! 0) = Unowned"
    by (simp add: example_defs)
  have ok: "argumentOk exampleHost (newFunctionC True) genericMapA (argsC ! 0)"
    by (simp add: argumentOk_def example_defs)
  from class_argument_copy_iff_unowned
         [where k = 0 and ADL = argsC and A2G = genericMapA and H = exampleHost
            and NewF = "newFunctionC True" and E = descC, OF c2 c3 c4]
       cloneArguments_C[of True] c5
  have "ValueInst (CopyValueOperation (ArgumentValue (ClonedEntryBBArgs (stateC True) ! 0)))
          \<in> set (ClonedEntryBBInsts (stateC True))"
    unfolding Let_def by blast
  moreover
  have e2: "(0::nat) < length argsE" by (simp add: argsE_def)
  have e3: "genericMapA (Index (argsE ! 0)) = Some (GenericTypeParam 0 0)"
    by (simp add: argsE_def genericMapA_def exampleArg_def)
  have e4: "getPreferredExistentialRepresentation exampleHost (ArgType (Arg (argsE ! 0))) = Class"
    by (simp add: example_defs)
  have e5: "hasOwnership newFunctionE \<and> ArgOwnershipKind (ClonedEntryBBArgs stateE ! 0) = Owned"
    by (simp add: example_defs)
  have e6: "\<not> (hasOwnership newFunctionE \<and>
                ArgOwnershipKind (ClonedEntryBBArgs stateE ! 0) = Unowned)"
    by (simp add: example_defs)
  from class_argument_copy_iff_unowned
         [where k = 0 and ADL = argsE and A2G = genericMapA and H = exampleHost
            and NewF = newFunctionE and E = descE, OF e2 e3 e4]
       cloneArguments_E e6
  have "ValueInst (CopyValueOperation (ArgumentValue (ClonedEntryBBArgs stateE ! 0)))
          \<notin> set (ClonedEntryBBInsts stateE)"
    unfolding Let_def by blast
  ultimately show ?thesis
    using ok c5 e5 by (simp add: cloneArguments_C cloneArguments_E) (simp add: example_defs)
qed

text \<open>
  C8 as stated fails in a function without ownership: the argument's ownership kind is
  Unowned, and the prologue boxes the argument itself, without a copy and without a
  cleanup.
\<close>

theorem unowned_without_ownership_counterexample:
  "cloneArguments exampleHost (newFunctionC False) genericMapA descC argsC = Inr (stateC False) \<and>
   getPreferredExistentialRepresentation exampleHost (ArgType (Arg (argsC ! 0))) = Class \<and>
   ClonedEntryBBArgs (stateC False) = [genericArgument 0 0 Object Unowned] \<and>
   ArgOwnershipKind (genericArgument 0 0 Object Unowned) = Unowned \<and>
   ClonedEntryBBInsts (stateC False)
     = [ValueInst (boxedRef (ArgumentValue (genericArgument 0 0 Object Unowned)))] \<and>
   CleanupValues (stateC False) = []"
  by (simp add: cloneArguments_C) (simp add: example_defs)

subsection \<open>The generic signature\<close>

lemma getNextDepth_greater:
  "q \<in> set (GenericParams sig) \<Longrightarrow> getDepth q < getNextDepth sig"
  by (auto simp: getNextDepth_def less_Suc_eq_le)

lemma convertLoop_Cons:
  assumes "convertLoop H FTy D (e # E) st = Inr st'"
  shows "fst e < length (Parameters FTy) \<and>
         isExistentialType H (getArgumentType H FTy (Parameters FTy ! fst e)) \<and>
         convertLoop H FTy D E
           (st\<lparr>genericParams := genericParams st @ [GenericTypeParam D (GPIdx st)],
               requirements := requirements st @
                 [Requirement Conformance (GenericParamTy (GenericTypeParam D (GPIdx st)))
                    (constraintOf (getArgumentType H FTy (Parameters FTy ! fst e)))],
               ArgToGenericTypeMap :=
                 insertIfAbsent (ArgToGenericTypeMap st) (fst e) (GenericTypeParam D (GPIdx st)),
               GPIdx := Suc (GPIdx st)\<rparr>) = Inr st'"
  using assms by (simp add: Let_def split: if_splits)

text \<open>The lists made by the loop, entry by entry in the order of iteration.\<close>

lemma convertLoop_lists:
  "convertLoop H FTy D E st = Inr st' \<Longrightarrow>
   genericParams st' =
     genericParams st @ map (\<lambda>(k, e). GenericTypeParam D k) (enumerate (GPIdx st) E) \<and>
   requirements st' =
     requirements st @
       map (\<lambda>(k, e). Requirement Conformance (GenericParamTy (GenericTypeParam D k))
                        (constraintOf (getArgumentType H FTy (Parameters FTy ! fst e))))
           (enumerate (GPIdx st) E)"
proof (induction E arbitrary: st)
  case Nil
  then show ?case by simp
next
  case (Cons e E)
  from convertLoop_Cons[OF Cons.prems] Cons.IH show ?case by fastforce
qed

text \<open>The map made by the loop, for keys that are distinct and new.\<close>

lemma convertLoop_map:
  "convertLoop H FTy D E st = Inr st' \<Longrightarrow> distinct (map fst E) \<Longrightarrow>
   \<forall>e\<in>set E. ArgToGenericTypeMap st (fst e) = None \<Longrightarrow>
   (\<forall>k<length E. ArgToGenericTypeMap st' (fst (E ! k)) = Some (GenericTypeParam D (GPIdx st + k)))
   \<and> (\<forall>i. i \<notin> fst ` set E \<longrightarrow> ArgToGenericTypeMap st' i = ArgToGenericTypeMap st i)"
proof (induction E arbitrary: st)
  case Nil
  then show ?case by simp
next
  case (Cons e E)
  let ?st1 = "st\<lparr>genericParams := genericParams st @ [GenericTypeParam D (GPIdx st)],
               requirements := requirements st @
                 [Requirement Conformance (GenericParamTy (GenericTypeParam D (GPIdx st)))
                    (constraintOf (getArgumentType H FTy (Parameters FTy ! fst e)))],
               ArgToGenericTypeMap :=
                 insertIfAbsent (ArgToGenericTypeMap st) (fst e) (GenericTypeParam D (GPIdx st)),
               GPIdx := Suc (GPIdx st)\<rparr>"
  from convertLoop_Cons[OF Cons.prems(1)] have rest: "convertLoop H FTy D E ?st1 = Inr st'"
    by simp
  from Cons.prems(3) have new: "ArgToGenericTypeMap st (fst e) = None" by simp
  then have m1: "ArgToGenericTypeMap ?st1 = (ArgToGenericTypeMap st)(fst e \<mapsto> GenericTypeParam D (GPIdx st))"
    by (simp add: insertIfAbsent_def)
  from Cons.prems(2) have d: "distinct (map fst E)" and fresh: "fst e \<notin> fst ` set E"
    by auto
  have "\<forall>x\<in>set E. ArgToGenericTypeMap ?st1 (fst x) = None"
  proof
    fix x assume x: "x \<in> set E"
    with fresh have "fst x \<noteq> fst e" by (metis image_eqI)
    with x Cons.prems(3) show "ArgToGenericTypeMap ?st1 (fst x) = None"
      by (simp add: m1)
  qed
  from Cons.IH[OF rest d this]
  have ih1: "\<forall>k<length E. ArgToGenericTypeMap st' (fst (E ! k))
                 = Some (GenericTypeParam D (Suc (GPIdx st) + k))"
    and ih2: "\<forall>i. i \<notin> fst ` set E \<longrightarrow> ArgToGenericTypeMap st' i = ArgToGenericTypeMap ?st1 i"
    by simp_all
  have first: "ArgToGenericTypeMap st' (fst e) = Some (GenericTypeParam D (GPIdx st))"
    using ih2 fresh by (simp add: m1)
  have "ArgToGenericTypeMap st' (fst ((e # E) ! k)) = Some (GenericTypeParam D (GPIdx st + k))"
    if "k < length (e # E)" for k
    using that first ih1 by (cases k) simp_all
  moreover have "ArgToGenericTypeMap st' i = ArgToGenericTypeMap st i"
    if "i \<notin> fst ` set (e # E)" for i
    using that ih2 by (simp add: m1)
  ultimately show ?case by blast
qed

text \<open>
  C5, as the code has it. The loop makes one generic parameter and one conformance
  requirement per entry of the descriptor map, in the order in which the map is
  iterated: the \<open>k\<close>-th entry visited gets the parameter with index \<open>k\<close>, at the depth
  after the deepest parameter of the original signature; the requirement constrains
  that parameter to the constraint type of the existential parameter type; and the
  entry's argument position is mapped to the parameter.
\<close>

theorem one_generic_parameter_per_entry:
  assumes "convertExistentialArgTypesToGenericArgTypes H F E Map.empty = Inr cs"
    and "distinct (map fst E)"
  shows "let FTy = LoweredFunctionType F; sig = InvocationGenericSignature FTy
         in length (genericParams cs) = length E \<and>
            length (requirements cs) = length E \<and>
            (\<forall>k<length E.
               genericParams cs ! k = GenericTypeParam (getNextDepth sig) k \<and>
               requirements cs ! k =
                 Requirement Conformance (GenericParamTy (genericParams cs ! k))
                   (constraintOf (getArgumentType H FTy (Parameters FTy ! fst (E ! k)))) \<and>
               ArgToGenericTypeMap cs (fst (E ! k)) = Some (genericParams cs ! k)) \<and>
            (\<forall>p\<in>set (genericParams cs). \<forall>q\<in>set (GenericParams sig). getDepth q < getDepth p) \<and>
            dom (ArgToGenericTypeMap cs) = fst ` set E"
proof -
  define FTy where "FTy = LoweredFunctionType F"
  define sig where "sig = InvocationGenericSignature FTy"
  define st0 :: ConvertState where
    "st0 = \<lparr>genericParams = [], requirements = [], ArgToGenericTypeMap = Map.empty, GPIdx = 0\<rparr>"
  have loop: "convertLoop H FTy (getNextDepth sig) E st0 = Inr cs"
    using assms(1)
    by (simp add: convertExistentialArgTypesToGenericArgTypes_def Let_def FTy_def sig_def st0_def)
  from convertLoop_lists[OF loop]
  have gp: "genericParams cs = map (\<lambda>(k, e). GenericTypeParam (getNextDepth sig) k) (enumerate 0 E)"
    and rq: "requirements cs =
       map (\<lambda>(k, e). Requirement Conformance (GenericParamTy (GenericTypeParam (getNextDepth sig) k))
                        (constraintOf (getArgumentType H FTy (Parameters FTy ! fst e))))
           (enumerate 0 E)"
    by (simp_all add: st0_def)
  from convertLoop_map[OF loop assms(2)]
  have mp: "\<forall>k<length E. ArgToGenericTypeMap cs (fst (E ! k))
               = Some (GenericTypeParam (getNextDepth sig) k)"
    and fr: "\<forall>i. i \<notin> fst ` set E \<longrightarrow> ArgToGenericTypeMap cs i = None"
    by (simp_all add: st0_def)
  have nth: "genericParams cs ! k = GenericTypeParam (getNextDepth sig) k \<and>
             requirements cs ! k =
               Requirement Conformance (GenericParamTy (genericParams cs ! k))
                 (constraintOf (getArgumentType H FTy (Parameters FTy ! fst (E ! k)))) \<and>
             ArgToGenericTypeMap cs (fst (E ! k)) = Some (genericParams cs ! k)"
    if "k < length E" for k
    using that mp by (simp add: gp rq nth_enumerate_eq)
  have depth: "getDepth q < getDepth p"
    if "p \<in> set (genericParams cs)" "q \<in> set (GenericParams sig)" for p q
    using that getNextDepth_greater[of q sig] by (auto simp: gp)
  have dom: "dom (ArgToGenericTypeMap cs) = fst ` set E"
  proof (intro set_eqI iffI)
    fix i assume "i \<in> dom (ArgToGenericTypeMap cs)"
    with fr show "i \<in> fst ` set E" by auto
  next
    fix i assume "i \<in> fst ` set E"
    then obtain k where "k < length E" "i = fst (E ! k)"
      by (auto simp: in_set_conv_nth)
    with mp show "i \<in> dom (ArgToGenericTypeMap cs)" by auto
  qed
  from nth depth dom show ?thesis
    unfolding Let_def FTy_def[symmetric] sig_def[symmetric]
    by (simp add: gp rq)
qed

lemma convert_B:
  "convertExistentialArgTypesToGenericArgTypes exampleHost funcB descB Map.empty = Inr convertedB"
  by (simp add: convertExistentialArgTypesToGenericArgTypes_def getNextDepth_def constraintOf_def
        insertIfAbsent_def Let_def example_defs)

theorem one_generic_parameter_per_entry_witness:
  "convertExistentialArgTypesToGenericArgTypes exampleHost funcB descB Map.empty = Inr convertedB \<and>
   distinct (map fst descB) \<and>
   length (genericParams convertedB) = length descB \<and>
   length (requirements convertedB) = length descB \<and>
   dom (ArgToGenericTypeMap convertedB) = fst ` set descB"
proof -
  have h2: "distinct (map fst descB)" by (simp add: descB_def)
  from one_generic_parameter_per_entry [OF convert_B h2] convert_B h2
  show ?thesis by (simp add: Let_def)
qed

text \<open>
  C5 as stated fails: the map is visited in the order 4, 1, so the argument at
  position 4 gets the parameter with index 0 and the argument at position 1 the one
  with index 1; the indices do not ascend with the argument positions.
\<close>

theorem indices_not_ascending_counterexample:
  "convertExistentialArgTypesToGenericArgTypes exampleHost funcB descB Map.empty = Inr convertedB \<and>
   map fst descB = [4, 1] \<and>
   ArgToGenericTypeMap convertedB 1 = Some (GenericTypeParam 0 1) \<and>
   ArgToGenericTypeMap convertedB 4 = Some (GenericTypeParam 0 0) \<and>
   (1::nat) < 4 \<and> \<not> getIndex (GenericTypeParam 0 1) < getIndex (GenericTypeParam 0 0)"
  by (simp add: convert_B) (simp add: convertedB_def genericMapB_def descB_def)

subsection \<open>The thunk\<close>

text \<open>The shape of every successful result of \<^verbatim>\<open>populateThunkBody\<close>.\<close>

lemma populateThunkBody_Inr:
  assumes "populateThunkBody H F NewF ADL A2G E = Inr Thunk"
  shows "\<exists>st SubMap.
    thunkArgumentsLoop H
        (F\<lparr>isThunk := IsSignatureOptimizedThunk, InlineStrategy := AlwaysInline, Blocks := []\<rparr>)
        NewF
        (createThunkArguments H
           (F\<lparr>isThunk := IsSignatureOptimizedThunk, InlineStrategy := AlwaysInline, Blocks := []\<rparr>)
           ADL)
        A2G E ADL
        \<lparr>ApplyArgs = [], Temps = [], GenericToOpenedTypeMap = Map.empty,
         ThunkInsts = [ValueInst (FunctionRefInst (Name NewF))]\<rparr> = Inr st \<and>
    Thunk = F\<lparr>isThunk := IsSignatureOptimizedThunk, InlineStrategy := AlwaysInline,
              Blocks := emitCall H NewF
                (createThunkArguments H
                   (F\<lparr>isThunk := IsSignatureOptimizedThunk, InlineStrategy := AlwaysInline,
                      Blocks := []\<rparr>) ADL)
                st SubMap\<rparr>"
  using assms unfolding populateThunkBody_def
  by (auto simp: Let_def split: sum.splits)

lemma emitCall_entry:
  "emitCall H NewF ThunkArgs st SubMap \<noteq> [] \<and>
   Arguments (hd (emitCall H NewF ThunkArgs st SubMap)) = ThunkArgs"
  by (simp add: emitCall_def Let_def split: option.splits)

lemma createThunkArguments_nth:
  assumes "k < length ADL"
  shows "createThunkArguments H F ADL ! k =
           \<lparr>ParentBlock = 0, ArgIndex = k, ArgType = ArgType (Arg (ADL ! k)),
            ArgDecl = Decl (ADL ! k),
            ArgOwnershipKind = defaultArgumentOwnership H F k (ArgType (Arg (ADL ! k))),
            ArgFlags = ArgFlags (Arg (ADL ! k))\<rparr>"
  using assms by (simp add: createThunkArguments_def nth_enumerate_eq)

lemma thunkA_populated:
  "populateThunkBody exampleHost funcA twinA argsA genericMapA descA = Inr thunkA"
  by (simp add: populateThunkBody_def emitCall_def createThunkArguments_def thunkArgument_def
        insertIfAbsent_def getNextDepth_def emitTempsCleanup_def isObject_def Let_def example_defs)

text \<open>
  C4. The thunk is the original function with a new body and the thunk and inlining
  attributes set; name, linkage, lowered type and every other attribute are those of
  the original. Its entry block has one argument per descriptor, at the same position,
  with the type and flags of the original argument and the declaration recorded in the
  descriptor.
\<close>

theorem thunk_preserves_signature:
  assumes "populateThunkBody H F NewF ADL A2G E = Inr Thunk"
  shows "Thunk = F\<lparr>isThunk := IsSignatureOptimizedThunk, InlineStrategy := AlwaysInline,
                    Blocks := Blocks Thunk\<rparr> \<and>
         Blocks Thunk \<noteq> [] \<and>
         length (Arguments (hd (Blocks Thunk))) = length ADL \<and>
         (\<forall>k<length ADL.
            ArgIndex (Arguments (hd (Blocks Thunk)) ! k) = k \<and>
            ArgType (Arguments (hd (Blocks Thunk)) ! k) = ArgType (Arg (ADL ! k)) \<and>
            ArgDecl (Arguments (hd (Blocks Thunk)) ! k) = Decl (ADL ! k) \<and>
            ArgFlags (Arguments (hd (Blocks Thunk)) ! k) = ArgFlags (Arg (ADL ! k)))"
proof -
  let ?F1 = "F\<lparr>isThunk := IsSignatureOptimizedThunk, InlineStrategy := AlwaysInline, Blocks := []\<rparr>"
  from populateThunkBody_Inr[OF assms] obtain st SubMap where
    thunk: "Thunk = F\<lparr>isThunk := IsSignatureOptimizedThunk, InlineStrategy := AlwaysInline,
              Blocks := emitCall H NewF (createThunkArguments H ?F1 ADL) st SubMap\<rparr>"
    by blast
  have "length (createThunkArguments H ?F1 ADL) = length ADL"
    by (simp add: createThunkArguments_def)
  with emitCall_entry[of H NewF "createThunkArguments H ?F1 ADL" st SubMap]
  show ?thesis
    by (simp add: thunk createThunkArguments_nth)
qed

theorem thunk_preserves_signature_witness:
  "populateThunkBody exampleHost funcA twinA argsA genericMapA descA = Inr thunkA \<and>
   LoweredFunctionType thunkA = LoweredFunctionType funcA \<and>
   Name thunkA = Name funcA \<and> Linkage thunkA = Linkage funcA \<and>
   length (Arguments (hd (Blocks thunkA))) = length argsA \<and>
   ArgType (Arguments (hd (Blocks thunkA)) ! 0) = anyP"
proof -
  from thunk_preserves_signature [OF thunkA_populated]
  have "length (Arguments (hd (Blocks thunkA))) = length argsA"
    by simp
  then show ?thesis
    by (simp add: thunkA_populated) (simp add: example_defs)
qed






subsection \<open>The driver\<close>

lemma cloneAndPopulateFunction_frame:
  "cloneAndPopulateFunction H OrigF NewF A2G E ADL = Inr Twin \<Longrightarrow>
   Name Twin = Name NewF \<and> LoweredFunctionType Twin = LoweredFunctionType NewF"
  by (auto simp: cloneAndPopulateFunction_def split: sum.splits)

lemma lookUpOrCreate_Inr:
  assumes "lookUpOrCreate H M F ADL E SpecName NewFTy A2G = Inr (M1, Twin)"
  shows "M1 SpecName = Some Twin \<and> LoweredFunctionType Twin = NewFTy \<and>
         (\<forall>CachedFn. M SpecName = Some CachedFn \<longrightarrow> Twin = CachedFn \<and> M1 = M) \<and>
         (M SpecName = None \<longrightarrow> M1 = M(SpecName \<mapsto> Twin))"
proof (cases "M SpecName")
  case None
  show ?thesis
  proof (cases "cloneAndPopulateFunction H F (createFunction H F SpecName NewFTy) A2G E ADL")
    case (Inl e)
    with assms None show ?thesis by (simp add: lookUpOrCreate_def)
  next
    case (Inr T)
    with assms None have r: "M1 = M(SpecName \<mapsto> T)" "Twin = T"
      by (auto simp: lookUpOrCreate_def)
    from cloneAndPopulateFunction_frame[OF Inr]
    have "LoweredFunctionType T = NewFTy"
      by (simp add: createFunction_def)
    with None r show ?thesis by simp
  qed
next
  case (Some CachedFn)
  with assms show ?thesis
    by (auto simp: lookUpOrCreate_def split: if_splits)
qed

lemma lookUpOrCreate_hit:
  "M SpecName = Some CachedFn \<Longrightarrow>
   lookUpOrCreate H M F ADL E SpecName NewFTy A2G =
     (if LoweredFunctionType CachedFn = NewFTy then Inr (M, CachedFn)
      else Inl CachedTypeMismatch)"
  by (simp add: lookUpOrCreate_def)

text \<open>Name and type are computed from the name and the lowered type of the function.\<close>

lemma specialized_name_type_cong:
  assumes "Name G = Name F" and "LoweredFunctionType G = LoweredFunctionType F"
  shows "createExistentialSpecializedFunctionName H G E
           = createExistentialSpecializedFunctionName H F E"
    and "createExistentialSpecializedFunctionType H G E A2G
           = createExistentialSpecializedFunctionType H F E A2G"
  using assms
  by (simp_all add: createExistentialSpecializedFunctionName_def
        createExistentialSpecializedFunctionType_def
        convertExistentialArgTypesToGenericArgTypes_def)

lemma populateThunkBody_cong:
  assumes "G\<lparr>isThunk := IsSignatureOptimizedThunk, InlineStrategy := AlwaysInline, Blocks := []\<rparr>
           = F\<lparr>isThunk := IsSignatureOptimizedThunk, InlineStrategy := AlwaysInline, Blocks := []\<rparr>"
  shows "populateThunkBody H G NewF ADL A2G E = populateThunkBody H F NewF ADL A2G E"
  using assms by (simp add: populateThunkBody_def)

lemma type_A:
  "createExistentialSpecializedFunctionType exampleHost funcA descA Map.empty
     = Inr (twinTypeA, genericMapA)"
  by (simp add: createExistentialSpecializedFunctionType_def
        convertExistentialArgTypesToGenericArgTypes_def getNextDepth_def constraintOf_def
        insertIfAbsent_def Let_def hasErrorResult_def withRepresentation_def example_defs)

lemma name_A: "createExistentialSpecializedFunctionName exampleHost funcA descA = ''FTf0''"
  by (simp add: createExistentialSpecializedFunctionName_def example_defs)

lemma create_A: "createFunction exampleHost funcA ''FTf0'' twinTypeA = newFunctionA"
  by (simp add: createFunction_def example_defs)

lemma driver_A:
  "createExistentialSpecializedFunction exampleHost Map.empty funcA argsA descA
     = Inr ([''FTf0'' \<mapsto> twinA], thunkA, twinA)"
  by (simp add: createExistentialSpecializedFunction_def lookUpOrCreate_def name_A type_A create_A
       cloneAndPopulate_A thunkA_populated)

text \<open>
  C3. After a successful run, the module maps the specialized name to the generic
  function of that run, and that function has the specialized type. A second run, on
  the thunk or on the original function, computes the same name and the same type,
  finds that function, and returns it with the same thunk; the module is unchanged, so
  no second generic function is made. A run that finds a function of another type
  under the name stops at the assertion.
\<close>

theorem second_run_reuses_twin:
  "(\<forall>M1 Thunk Twin.
      createExistentialSpecializedFunction H M F ADL E = Inr (M1, Thunk, Twin) \<longrightarrow>
        createExistentialSpecializedFunctionName H Thunk E
          = createExistentialSpecializedFunctionName H F E \<and>
        createExistentialSpecializedFunctionType H Thunk E Map.empty
          = createExistentialSpecializedFunctionType H F E Map.empty \<and>
        M1 (createExistentialSpecializedFunctionName H F E) = Some Twin \<and>
        (\<exists>A2G. createExistentialSpecializedFunctionType H F E Map.empty
                 = Inr (LoweredFunctionType Twin, A2G)) \<and>
        (\<forall>CachedFn. M (createExistentialSpecializedFunctionName H F E) = Some CachedFn
           \<longrightarrow> Twin = CachedFn \<and> M1 = M) \<and>
        createExistentialSpecializedFunction H M1 Thunk ADL E = Inr (M1, Thunk, Twin) \<and>
        createExistentialSpecializedFunction H M1 F ADL E = Inr (M1, Thunk, Twin))
   \<and> (\<forall>CachedFn NewFTy A2G.
        M (createExistentialSpecializedFunctionName H F E) = Some CachedFn \<longrightarrow>
        createExistentialSpecializedFunctionType H F E Map.empty = Inr (NewFTy, A2G) \<longrightarrow>
        LoweredFunctionType CachedFn \<noteq> NewFTy \<longrightarrow>
        createExistentialSpecializedFunction H M F ADL E = Inl CachedTypeMismatch)"
proof (intro conjI allI impI)
  fix CachedFn NewFTy A2G
  assume "M (createExistentialSpecializedFunctionName H F E) = Some CachedFn"
    and "createExistentialSpecializedFunctionType H F E Map.empty = Inr (NewFTy, A2G)"
    and "LoweredFunctionType CachedFn \<noteq> NewFTy"
  then show "createExistentialSpecializedFunction H M F ADL E = Inl CachedTypeMismatch"
    by (simp add: createExistentialSpecializedFunction_def lookUpOrCreate_hit)
next
  fix M1 Thunk Twin
  assume run: "createExistentialSpecializedFunction H M F ADL E = Inr (M1, Thunk, Twin)"
  define SpecName where "SpecName = createExistentialSpecializedFunctionName H F E"
  from run obtain NewFTy A2G where
    ty: "createExistentialSpecializedFunctionType H F E Map.empty = Inr (NewFTy, A2G)"
    by (cases "createExistentialSpecializedFunctionType H F E Map.empty")
       (auto simp: createExistentialSpecializedFunction_def)
  from run ty have
    lk: "lookUpOrCreate H M F ADL E SpecName NewFTy A2G = Inr (M1, Twin)"
    and th: "populateThunkBody H F Twin ADL A2G E = Inr Thunk"
    by (auto simp: createExistentialSpecializedFunction_def SpecName_def
             split: sum.splits)
  from populateThunkBody_Inr[OF th] have
    frame: "Name Thunk = Name F" "LoweredFunctionType Thunk = LoweredFunctionType F"
      "Thunk\<lparr>isThunk := IsSignatureOptimizedThunk, InlineStrategy := AlwaysInline, Blocks := []\<rparr>
       = F\<lparr>isThunk := IsSignatureOptimizedThunk, InlineStrategy := AlwaysInline, Blocks := []\<rparr>"
    by auto
  note cong = specialized_name_type_cong[OF frame(1,2), of H E]
  from lookUpOrCreate_Inr[OF lk] have
    found: "M1 SpecName = Some Twin" and twinty: "LoweredFunctionType Twin = NewFTy"
    and hit: "\<forall>CachedFn. M SpecName = Some CachedFn \<longrightarrow> Twin = CachedFn \<and> M1 = M"
    by simp_all
  have again: "lookUpOrCreate H M1 G ADL E SpecName NewFTy A2G = Inr (M1, Twin)" for G
    using found twinty by (simp add: lookUpOrCreate_hit)
  have th2: "populateThunkBody H Thunk Twin ADL A2G E = Inr Thunk"
    using populateThunkBody_cong[OF frame(3)] th by simp
  show "createExistentialSpecializedFunctionName H Thunk E
          = createExistentialSpecializedFunctionName H F E"
    by (rule cong(1))
  show "createExistentialSpecializedFunctionType H Thunk E Map.empty
          = createExistentialSpecializedFunctionType H F E Map.empty"
    by (rule cong(2))
  show "M1 (createExistentialSpecializedFunctionName H F E) = Some Twin"
    using found by (simp add: SpecName_def)
  show "\<exists>A2G. createExistentialSpecializedFunctionType H F E Map.empty
                 = Inr (LoweredFunctionType Twin, A2G)"
    using ty twinty by blast
  show "Twin = CachedFn"
    if "M (createExistentialSpecializedFunctionName H F E) = Some CachedFn" for CachedFn
    using that hit by (simp add: SpecName_def)
  show "M1 = M"
    if "M (createExistentialSpecializedFunctionName H F E) = Some CachedFn" for CachedFn
    using that hit by (simp add: SpecName_def)
  show "createExistentialSpecializedFunction H M1 Thunk ADL E = Inr (M1, Thunk, Twin)"
    using again[of Thunk] th2 ty
    by (simp add: createExistentialSpecializedFunction_def cong SpecName_def)
  show "createExistentialSpecializedFunction H M1 F ADL E = Inr (M1, Thunk, Twin)"
    using again[of F] th ty
    by (simp add: createExistentialSpecializedFunction_def SpecName_def)
qed

theorem second_run_reuses_twin_witness:
  "createExistentialSpecializedFunction exampleHost Map.empty funcA argsA descA
     = Inr ([''FTf0'' \<mapsto> twinA], thunkA, twinA) \<and>
   createExistentialSpecializedFunction exampleHost [''FTf0'' \<mapsto> twinA] thunkA argsA descA
     = Inr ([''FTf0'' \<mapsto> twinA], thunkA, twinA) \<and>
   createExistentialSpecializedFunction exampleHost [''FTf0'' \<mapsto> twinA] funcA argsA descA
     = Inr ([''FTf0'' \<mapsto> twinA], thunkA, twinA) \<and>
   LoweredFunctionType funcA \<noteq> twinTypeA \<and>
   createExistentialSpecializedFunction exampleHost [''FTf0'' \<mapsto> funcA] funcA argsA descA
     = Inl CachedTypeMismatch"
proof -
  have ne: "LoweredFunctionType funcA \<noteq> twinTypeA"
    by (simp add: example_defs)
  from second_run_reuses_twin [of exampleHost Map.empty funcA argsA descA] driver_A
  have "createExistentialSpecializedFunction exampleHost [''FTf0'' \<mapsto> twinA] thunkA argsA descA
          = Inr ([''FTf0'' \<mapsto> twinA], thunkA, twinA)"
    and "createExistentialSpecializedFunction exampleHost [''FTf0'' \<mapsto> twinA] funcA argsA descA
          = Inr ([''FTf0'' \<mapsto> twinA], thunkA, twinA)"
    by blast+
  moreover
  from second_run_reuses_twin [of exampleHost "[''FTf0'' \<mapsto> funcA]" funcA argsA descA]
  have "createExistentialSpecializedFunction exampleHost [''FTf0'' \<mapsto> funcA] funcA argsA descA
          = Inl CachedTypeMismatch"
    using ne by (simp add: name_A type_A)
  ultimately show ?thesis using driver_A ne by simp
qed

subsection \<open>A borrowed opaque existential, end to end\<close>







end
